theory Spec2Isabelle
  imports Complex_Main "HOL-Library.Char_ord" "HOL-Library.List_Lexorder" "HOL-Library.Multiset"
    "HOL-Library.Word"
begin

section \<open>Data model of \<^verbatim>\<open>app.py\<close>\<close>

text \<open>
  The script reads six spreadsheets into pandas data frames, normalises them, joins them
  into the fact table \<^verbatim>\<open>df_total\<close> and registers two Dash callbacks on it. A data frame
  is modelled as the list of its rows, a row as a record with one field per column the
  script reads, and a cell that pandas holds as NaN, NaT or None as \<open>None\<close>. Column names keep
  the source's spelling with \<open>_\<close> for a blank and without accents
  (the unit price column is \<open>Preco_Unitario\<close>, the month column \<open>Mes\<close>).

  The number type of the measure columns (quantity, unit price, value of the sale) is the
  type parameter \<open>'n\<close>: pandas holds such a column as int64 or as float64, depending on
  the sheet. Its arithmetic is that of the type and nothing is assumed of it: the product of
  line 59 is the \<open>*\<close> of \<open>'n\<close> (for int64, the type \<open>64 word\<close>, it wraps around; for
  float64 it is the rounded product), and the sum of a column is a parameter \<open>soma_num\<close> of
  the aggregators (for int64 the sum modulo \<open>2 ^ 64\<close>, for float64 the sum as the library
  rounds it). Only \<^verbatim>\<open>nlargest\<close> compares values, by the linear order of \<open>'n\<close>.
\<close>

record timestamp =
  year :: nat
  month :: nat
  day :: nat

text \<open>A cell of the date column as \<^verbatim>\<open>read_excel\<close> delivers it: a date (one that
  \<^verbatim>\<open>datetime64[ns]\<close> represents), a text, or nothing.\<close>

datatype raw_cell = Stamp timestamp | Text string | Missing

datatype errors_mode = Raise | Coerce

datatype error = ParserError | KeyError

text \<open>
  The sales sheets, after lines 17-27 have forced the six column names on each file and
  concatenated them. The type parameter is the type of the date column: \<open>raw_cell\<close> as
  read, \<open>timestamp option\<close> after line 50.
\<close>

record ('d, 'n) venda =
  Data_da_Venda :: 'd
  Ordem_de_Compra :: "string option"
  ID_Produto :: "string option"
  ID_Cliente :: "int option"
  Qtd_Vendida :: "'n option"
  ID_Loja :: "int option"

text \<open>
  The reference tables. Field names carry the table's name where the column name is also a
  column of the fact table. Columns of the spreadsheets that no line of the script reads
  are left out.
\<close>

record cliente_nomes =
  nomes_ID_Cliente :: "int option"
  Primeiro_Nome :: "string option"
  Sobrenome :: "string option"

record cliente =
  cliente_ID_Cliente :: "int option"
  cliente_Nome_Completo :: "string option"

text \<open>
  Line 37 branches on the columns of the customer sheet: it has either the two name
  columns or (the only other layout with which line 68 does not fail) the unified one.
\<close>

datatype clientes_planilha = Nomes_Separados "cliente_nomes list" | Nome_Unificado "cliente list"

record 'n produto =
  produto_ID_Produto :: "string option"
  produto_Produto :: "string option"
  produto_Tipo_do_Produto :: "string option"
  produto_Marca :: "string option"
  produto_Preco_Unitario :: "'n option"

record loja =
  loja_ID_Loja :: "int option"
  loja_Nome_da_Loja :: "string option"

text \<open>A row of \<^verbatim>\<open>df_total\<close>: the sales columns, the columns the three merges add, and the
  two columns of lines 58-59.\<close>

record 'n fact_row = "(timestamp option, 'n) venda" +
  Nome_Completo :: "string option"
  Produto :: "string option"
  Tipo_do_Produto :: "string option"
  Marca :: "string option"
  Preco_Unitario :: "'n option"
  Nome_da_Loja :: "string option"
  Ano :: "nat option"
  Valor_da_Venda :: "'n option"

section \<open>Normalizer (lines 36-50)\<close>

text \<open>\<^verbatim>\<open>astype(str)\<close> on an object column: a string stays, a missing value becomes the
  text \<^verbatim>\<open>nan\<close>.\<close>

fun astype_str :: "string option \<Rightarrow> string" where
  "astype_str None = ''nan''"
| "astype_str (Some s) = s"

definition nome_completo :: "cliente_nomes \<Rightarrow> cliente" where
  "nome_completo c =
     \<lparr>cliente_ID_Cliente = nomes_ID_Cliente c,
      cliente_Nome_Completo =
        Some (astype_str (Primeiro_Nome c) @ '' '' @ astype_str (Sobrenome c))\<rparr>"

fun unificar_nomes :: "clientes_planilha \<Rightarrow> cliente list" where
  "unificar_nomes (Nomes_Separados cs) = map nome_completo cs"
| "unificar_nomes (Nome_Unificado cs) = cs"

text \<open>
  \<^verbatim>\<open>pd.to_datetime(col, errors=...)\<close>, cell by cell. The text parser of the library is a
  parameter \<open>parse\<close>, the conversion of a text of the column at hand (\<open>None\<close>: the text
  is not a date); \<^verbatim>\<open>dayfirst=True\<close> and the format the library infers for the column are
  properties of that parser. With \<open>Raise\<close> an unparsable text is an error, with \<open>Coerce\<close> it
  is NaT.
\<close>

fun to_datetime_cell :: "errors_mode \<Rightarrow> (string \<Rightarrow> timestamp option) \<Rightarrow> raw_cell \<Rightarrow> error + timestamp option" where
  "to_datetime_cell m parse (Stamp t) = Inr (Some t)"
| "to_datetime_cell m parse Missing = Inr None"
| "to_datetime_cell m parse (Text s) =
     (case parse s of
        Some t \<Rightarrow> Inr (Some t)
      | None \<Rightarrow> (case m of Raise \<Rightarrow> Inl ParserError | Coerce \<Rightarrow> Inr None))"

fun to_datetime :: "errors_mode \<Rightarrow> (string \<Rightarrow> timestamp option) \<Rightarrow> raw_cell list \<Rightarrow> error + timestamp option list" where
  "to_datetime m parse [] = Inr []"
| "to_datetime m parse (c # cs) =
     (case to_datetime_cell m parse c of
        Inl e \<Rightarrow> Inl e
      | Inr d \<Rightarrow> (case to_datetime m parse cs of Inl e \<Rightarrow> Inl e | Inr ds \<Rightarrow> Inr (d # ds)))"

text \<open>Assigning a column: the new cells replace the old ones row by row.\<close>

definition com_data :: "('a, 'n) venda \<Rightarrow> 'b \<Rightarrow> ('b, 'n) venda" where
  "com_data v d =
     \<lparr>Data_da_Venda = d, Ordem_de_Compra = Ordem_de_Compra v, ID_Produto = ID_Produto v,
      ID_Cliente = ID_Cliente v, Qtd_Vendida = Qtd_Vendida v, ID_Loja = ID_Loja v\<rparr>"

text \<open>Line 50.\<close>

definition converter_datas :: "(string \<Rightarrow> timestamp option) \<Rightarrow> (raw_cell, 'n) venda list \<Rightarrow> error + (timestamp option, 'n) venda list" where
  "converter_datas parse df_vendas =
     (case to_datetime Coerce parse (map Data_da_Venda df_vendas) of
        Inl e \<Rightarrow> Inl e
      | Inr ds \<Rightarrow> Inr (map (\<lambda>(v, d). com_data v d) (zip df_vendas ds)))"

section \<open>Joiner (lines 53-59)\<close>

text \<open>
  \<^verbatim>\<open>left.merge(right, on=key, how='left')\<close>: the rows of \<open>left\<close> in their order; each is
  paired with every row of \<open>right\<close> that has its key, in the order of \<open>right\<close>, and with
  no row (\<open>None\<close>, every column of \<open>right\<close> missing) when there is none. pandas matches a
  missing key with a missing key, as the equality of \<open>option\<close> does.
\<close>

definition merge_left :: "('l \<Rightarrow> 'k) \<Rightarrow> ('r \<Rightarrow> 'k) \<Rightarrow> 'l list \<Rightarrow> 'r list \<Rightarrow> ('l \<times> 'r option) list" where
  "merge_left lkey rkey left right =
     concat (map (\<lambda>l. let ms = filter (\<lambda>r. rkey r = lkey l) right
                       in if ms = [] then [(l, None)] else map (\<lambda>r. (l, Some r)) ms) left)"

text \<open>A column of the right table in the merged row.\<close>

definition coluna :: "('r \<Rightarrow> 'a option) \<Rightarrow> 'r option \<Rightarrow> 'a option" where
  "coluna f r = (case r of None \<Rightarrow> None | Some x \<Rightarrow> f x)"

text \<open>Lines 58-59 on one merged row: \<^verbatim>\<open>.dt.year\<close> and the product of two columns, both
  missing when an operand is. The product of two cells is the product of the number type of
  the columns.\<close>

definition dt_year :: "timestamp option \<Rightarrow> nat option" where
  "dt_year d = map_option year d"

definition vezes :: "'n::times option \<Rightarrow> 'n option \<Rightarrow> 'n option" where
  "vezes a b = (case (a, b) of (Some x, Some y) \<Rightarrow> Some (x * y) | _ \<Rightarrow> None)"

definition linha_total :: "(((timestamp option, 'n::times) venda \<times> cliente option) \<times> 'n produto option) \<times> loja option \<Rightarrow> 'n fact_row" where
  "linha_total = (\<lambda>(((v, c), p), l).
     \<lparr>Data_da_Venda = Data_da_Venda v, Ordem_de_Compra = Ordem_de_Compra v,
      ID_Produto = ID_Produto v, ID_Cliente = ID_Cliente v, Qtd_Vendida = Qtd_Vendida v,
      ID_Loja = ID_Loja v,
      Nome_Completo = coluna cliente_Nome_Completo c,
      Produto = coluna produto_Produto p,
      Tipo_do_Produto = coluna produto_Tipo_do_Produto p,
      Marca = coluna produto_Marca p,
      Preco_Unitario = coluna produto_Preco_Unitario p,
      Nome_da_Loja = coluna loja_Nome_da_Loja l,
      Ano = dt_year (Data_da_Venda v),
      Valor_da_Venda = vezes (Qtd_Vendida v) (coluna produto_Preco_Unitario p)\<rparr>)"

definition montar_df_total :: "(timestamp option, 'n::times) venda list \<Rightarrow> cliente list \<Rightarrow> 'n produto list \<Rightarrow> loja list \<Rightarrow> 'n fact_row list" where
  "montar_df_total df_vendas df_clientes df_produtos df_lojas =
     map linha_total
       (merge_left (\<lambda>vcp. ID_Loja (fst (fst vcp))) loja_ID_Loja
          (merge_left (\<lambda>vc. ID_Produto (fst vc)) produto_ID_Produto
             (merge_left ID_Cliente cliente_ID_Cliente df_vendas df_clientes)
             df_produtos)
          df_lojas)"

section \<open>Filter index (lines 63-69) and the brand cascade (lines 132-136)\<close>

text \<open>\<^verbatim>\<open>dropna()\<close> keeps the cells that are present; \<^verbatim>\<open>unique()\<close> keeps the first occurrence
  of each value, in order of appearance.\<close>

definition dropna :: "'a option list \<Rightarrow> 'a list" where
  "dropna col = concat (map (\<lambda>c. case c of None \<Rightarrow> [] | Some x \<Rightarrow> [x]) col)"

definition unique :: "'a list \<Rightarrow> 'a list" where
  "unique xs = rev (remdups (rev xs))"

definition filtros_tipo :: "'n fact_row list \<Rightarrow> string list" where
  "filtros_tipo df_total = unique (dropna (map Tipo_do_Produto df_total))"

definition filtros_marca :: "'n fact_row list \<Rightarrow> string list" where
  "filtros_marca df_total = unique (dropna (map Marca df_total))"

definition filtros_produto :: "'n fact_row list \<Rightarrow> string list" where
  "filtros_produto df_total = unique (dropna (map Produto df_total))"

definition filtros_loja :: "'n fact_row list \<Rightarrow> string list" where
  "filtros_loja df_total = unique (dropna (map Nome_da_Loja df_total))"

definition filtros_cliente :: "'n fact_row list \<Rightarrow> string list" where
  "filtros_cliente df_total = unique (dropna (map Nome_Completo df_total))"

text \<open>
  The value of a single-select dropdown is a string or \<^verbatim>\<open>None\<close>, that of a multi-select
  one a list of strings or \<^verbatim>\<open>None\<close>. Python's \<^verbatim>\<open>if v:\<close> is false for \<^verbatim>\<open>None\<close>, for
  the empty string and for the empty list.
\<close>

definition truthy :: "'a list option \<Rightarrow> bool" where
  "truthy v = (case v of None \<Rightarrow> False | Some xs \<Rightarrow> xs \<noteq> [])"

text \<open>\<^verbatim>\<open>col == v\<close> for a string \<open>v\<close> and \<^verbatim>\<open>col.isin(vs)\<close> for a list of strings: both are
  false on a missing cell.\<close>

definition eq_mask :: "string option \<Rightarrow> string option \<Rightarrow> bool" where
  "eq_mask c v = (case (c, v) of (Some x, Some y) \<Rightarrow> x = y | _ \<Rightarrow> False)"

definition isin :: "string option \<Rightarrow> string list option \<Rightarrow> bool" where
  "isin c vs = (case (c, vs) of (Some x, Some ys) \<Rightarrow> x \<in> set ys | _ \<Rightarrow> False)"

definition atualizar_marcas :: "'n fact_row list \<Rightarrow> string option \<Rightarrow> string list" where
  "atualizar_marcas df_total tipo =
     (if truthy tipo
      then sort (unique (dropna (map Marca (filter (\<lambda>r. eq_mask (Tipo_do_Produto r) tipo) df_total))))
      else [])"

section \<open>Query engine (lines 153-167)\<close>

record entradas =
  tipo :: "string option"
  marca :: "string option"
  produtos :: "string list option"
  lojas :: "string list option"
  clientes :: "string list option"

text \<open>The masks of lines 155-164 that are applied, in the order of the five \<^verbatim>\<open>if\<close>s.\<close>

definition mascaras :: "entradas \<Rightarrow> ('n fact_row \<Rightarrow> bool) list" where
  "mascaras e =
     (if truthy (tipo e) then [\<lambda>r. eq_mask (Tipo_do_Produto r) (tipo e)] else []) @
     (if truthy (marca e) then [\<lambda>r. eq_mask (Marca r) (marca e)] else []) @
     (if truthy (produtos e) then [\<lambda>r. isin (Produto r) (produtos e)] else []) @
     (if truthy (lojas e) then [\<lambda>r. isin (Nome_da_Loja r) (lojas e)] else []) @
     (if truthy (clientes e) then [\<lambda>r. isin (Nome_Completo r) (clientes e)] else [])"

text \<open>The rows that \<^verbatim>\<open>df\<close> holds after line 164, as a function of the rows of
  \<^verbatim>\<open>df_total\<close>: each \<^verbatim>\<open>df = df[mask]\<close> keeps the rows of the mask, in order.\<close>

definition filtrar :: "entradas \<Rightarrow> 'n fact_row list \<Rightarrow> 'n fact_row list" where
  "filtrar e df_total = foldl (\<lambda>df m. filter m df) df_total (mascaras e)"

section \<open>Aggregators (lines 170-228)\<close>

text \<open>
  \<^verbatim>\<open>df.groupby(key)[val].sum().reset_index()\<close>: one entry per key that is present,
  ascending by key; rows whose key is missing belong to no group; the sum of a group is the
  column sum \<open>soma_num\<close> of the values of its rows that are present, in the order of the rows
  (of no value when none is left: the zero of the number type).
\<close>

definition soma :: "('n list \<Rightarrow> 'n) \<Rightarrow> 'n option list \<Rightarrow> 'n" where
  "soma soma_num col = soma_num (dropna col)"

definition groupby_sum :: "('n list \<Rightarrow> 'n) \<Rightarrow> ('r \<Rightarrow> 'k::linorder option) \<Rightarrow> ('r \<Rightarrow> 'n option) \<Rightarrow> 'r list \<Rightarrow> ('k \<times> 'n) list" where
  "groupby_sum soma_num key val df =
     map (\<lambda>k. (k, soma soma_num (map val (filter (\<lambda>r. key r = Some k) df))))
       (sort (remdups (dropna (map key df))))"

text \<open>\<^verbatim>\<open>nlargest(n)\<close> of a series without missing values: descending by value, equal
  values in their order in the series, cut after \<open>n\<close> entries. (\<open>sort_key\<close> is ascending
  and keeps equal values in their order, so it is applied to the reversed series and its
  result reversed.)\<close>

definition nlargest :: "nat \<Rightarrow> ('k \<times> 'n::linorder) list \<Rightarrow> ('k \<times> 'n) list" where
  "nlargest n series = take n (rev (sort_key snd (rev series)))"

text \<open>\<^verbatim>\<open>.dt.to_period('M').astype(str)\<close>: the label \<^verbatim>\<open>YYYY-MM\<close> of a date, and the text
  \<^verbatim>\<open>NaT\<close> for a missing one.\<close>

definition digito :: "nat \<Rightarrow> char" where
  "digito d = ''0123456789'' ! (d mod 10)"

definition periodo_str :: "timestamp option \<Rightarrow> string" where
  "periodo_str d =
     (case d of
        None \<Rightarrow> ''NaT''
      | Some t \<Rightarrow> [digito (year t div 1000), digito (year t div 100), digito (year t div 10),
                   digito (year t), CHR ''-'', digito (month t div 10), digito (month t)])"

definition vendas_por_ano :: "('n list \<Rightarrow> 'n) \<Rightarrow> 'n fact_row list \<Rightarrow> (nat \<times> 'n) list" where
  "vendas_por_ano soma_num df = groupby_sum soma_num Ano Valor_da_Venda df"

definition top_clientes :: "('n list \<Rightarrow> 'n) \<Rightarrow> 'n::linorder fact_row list \<Rightarrow> (string \<times> 'n) list" where
  "top_clientes soma_num df = nlargest 10 (groupby_sum soma_num Nome_Completo Valor_da_Venda df)"

definition top_produtos :: "('n list \<Rightarrow> 'n) \<Rightarrow> 'n::linorder fact_row list \<Rightarrow> (string \<times> 'n) list" where
  "top_produtos soma_num df = nlargest 10 (groupby_sum soma_num Produto Valor_da_Venda df)"

definition vendas_lojas :: "('n list \<Rightarrow> 'n) \<Rightarrow> 'n fact_row list \<Rightarrow> (string \<times> 'n) list" where
  "vendas_lojas soma_num df = groupby_sum soma_num Nome_da_Loja Valor_da_Venda df"

text \<open>Line 221 groups by the column \<^verbatim>\<open>'Mes'\<close> that line 220 has assigned: here the rows
  paired with their labels.\<close>

definition vendas_mes :: "('n list \<Rightarrow> 'n) \<Rightarrow> ('n fact_row \<times> string) list \<Rightarrow> (string \<times> 'n) list" where
  "vendas_mes soma_num df =
     groupby_sum soma_num (\<lambda>rm. Some (snd rm)) (\<lambda>rm. Valor_da_Venda (fst rm)) df"

section \<open>The callback \<^verbatim>\<open>atualizar_graficos\<close> on a store of data frames\<close>

text \<open>
  A pandas data frame is a mutable object and a Python variable holds a reference to it:
  \<^verbatim>\<open>df[col] = ...\<close> changes the object that \<^verbatim>\<open>df\<close> refers to, for every variable that
  refers to it. The store is the list of the data frames allocated so far and a reference
  is an index into it. A frame is its rows together with the column \<^verbatim>\<open>'Mes'\<close>, which
  \<^verbatim>\<open>df_total\<close> does not have (\<open>None\<close>) and line 220 adds.
\<close>

record 'n frame =
  linhas :: "'n fact_row list"
  Mes :: "string list option"

type_synonym 'n store = "'n frame list"

text \<open>\<^verbatim>\<open>x.copy()\<close> and \<^verbatim>\<open>x[mask]\<close> allocate a new frame and return its reference.\<close>

definition copy :: "'n store \<Rightarrow> nat \<Rightarrow> 'n store \<times> nat" where
  "copy h a = (h @ [h ! a], length h)"

definition filtrar_frame :: "('n fact_row \<Rightarrow> bool) \<Rightarrow> 'n frame \<Rightarrow> 'n frame" where
  "filtrar_frame m f =
     \<lparr>linhas = filter m (linhas f),
      Mes = map_option (\<lambda>ms. map snd (filter (\<lambda>rm. m (fst rm)) (zip (linhas f) ms))) (Mes f)\<rparr>"

definition indexar :: "'n store \<times> nat \<Rightarrow> ('n fact_row \<Rightarrow> bool) \<Rightarrow> 'n store \<times> nat" where
  "indexar s m = (fst s @ [filtrar_frame m (fst s ! snd s)], length (fst s))"

text \<open>\<^verbatim>\<open>x['Data da Venda'] = col\<close> and \<^verbatim>\<open>x['Mes'] = col\<close> change the frame in place.\<close>

definition atribuir_Data_da_Venda :: "'n store \<Rightarrow> nat \<Rightarrow> timestamp option list \<Rightarrow> 'n store" where
  "atribuir_Data_da_Venda h a col =
     h[a := (h ! a)\<lparr>linhas := map (\<lambda>(r, d). r\<lparr>Data_da_Venda := d\<rparr>) (zip (linhas (h ! a)) col)\<rparr>]"

definition atribuir_Mes :: "'n store \<Rightarrow> nat \<Rightarrow> string list \<Rightarrow> 'n store" where
  "atribuir_Mes h a col = h[a := (h ! a)\<lparr>Mes := Some col\<rparr>]"

text \<open>A datetime column handed to \<^verbatim>\<open>pd.to_datetime\<close> again (line 167): its cells are
  dates or NaT.\<close>

definition celula :: "timestamp option \<Rightarrow> raw_cell" where
  "celula d = (case d of None \<Rightarrow> Missing | Some t \<Rightarrow> Stamp t)"

text \<open>The six figures: the plotly express function, the title (its accents left out), the
  orientation where given, and the data handed over.\<close>

datatype px = Bar | Line | Pie | Area

record 'a figura =
  grafico :: px
  title :: string
  orientation :: "string option"
  dados :: 'a

type_synonym 'n figuras =
  "(nat \<times> 'n) list figura \<times> (string \<times> 'n) list figura \<times> (string \<times> 'n) list figura \<times>
   (string \<times> 'n) list figura \<times> (string option \<times> 'n option) list figura \<times>
   (string \<times> 'n) list figura"

definition fig1 :: "('n list \<Rightarrow> 'n) \<Rightarrow> 'n fact_row list \<Rightarrow> (nat \<times> 'n) list figura" where
  "fig1 soma_num df = \<lparr>grafico = Bar, title = ''Vendas por Ano'', orientation = None,
              dados = vendas_por_ano soma_num df\<rparr>"

definition fig2 :: "('n list \<Rightarrow> 'n) \<Rightarrow> 'n::linorder fact_row list \<Rightarrow> (string \<times> 'n) list figura" where
  "fig2 soma_num df = \<lparr>grafico = Bar, title = ''Top 10 Clientes'', orientation = Some ''h'',
              dados = top_clientes soma_num df\<rparr>"

definition fig3 :: "('n list \<Rightarrow> 'n) \<Rightarrow> 'n::linorder fact_row list \<Rightarrow> (string \<times> 'n) list figura" where
  "fig3 soma_num df = \<lparr>grafico = Line, title = ''Top 10 Produtos'', orientation = None,
              dados = top_produtos soma_num df\<rparr>"

definition fig4 :: "('n list \<Rightarrow> 'n) \<Rightarrow> 'n fact_row list \<Rightarrow> (string \<times> 'n) list figura" where
  "fig4 soma_num df = \<lparr>grafico = Bar, title = ''Vendas por Loja'', orientation = None,
              dados = vendas_lojas soma_num df\<rparr>"

text \<open>\<^verbatim>\<open>px.pie\<close> is handed the frame and the names of the two columns.\<close>

definition fig5 :: "'n fact_row list \<Rightarrow> (string option \<times> 'n option) list figura" where
  "fig5 df = \<lparr>grafico = Pie, title = ''Distribuicao por Tipo de Produto'', orientation = None,
              dados = map (\<lambda>r. (Tipo_do_Produto r, Valor_da_Venda r)) df\<rparr>"

definition fig6 :: "('n list \<Rightarrow> 'n) \<Rightarrow> ('n fact_row \<times> string) list \<Rightarrow> (string \<times> 'n) list figura" where
  "fig6 soma_num df = \<lparr>grafico = Area, title = ''Evolucao Mensal de Vendas'', orientation = None,
              dados = vendas_mes soma_num df\<rparr>"

text \<open>
  Lines 153-230. \<open>h\<close> is the store when the callback is called and \<open>df_total\<close> the
  reference that the global variable holds; the result is the store when the callback
  returns, and the figures; \<open>soma_num\<close> is the column sum of the number type. Reading
  the column \<^verbatim>\<open>'Mes'\<close> of a frame that has none is a
  \<^verbatim>\<open>KeyError\<close>.
\<close>

definition atualizar_graficos :: "('n list \<Rightarrow> 'n) \<Rightarrow> (string \<Rightarrow> timestamp option) \<Rightarrow> 'n::linorder store \<Rightarrow> nat \<Rightarrow> entradas \<Rightarrow> error + 'n store \<times> 'n figuras" where
  "atualizar_graficos soma_num parse h df_total e =
     (let (h1, df) = foldl indexar (copy h df_total) (mascaras e) in
      case to_datetime Coerce parse (map (\<lambda>r. celula (Data_da_Venda r)) (linhas (h1 ! df))) of
        Inl err \<Rightarrow> Inl err
      | Inr col \<Rightarrow>
         (let h2 = atribuir_Data_da_Venda h1 df col;
              f1 = fig1 soma_num (linhas (h2 ! df));
              f2 = fig2 soma_num (linhas (h2 ! df));
              f3 = fig3 soma_num (linhas (h2 ! df));
              f4 = fig4 soma_num (linhas (h2 ! df));
              f5 = fig5 (linhas (h2 ! df));
              h3 = atribuir_Mes h2 df (map (\<lambda>r. periodo_str (Data_da_Venda r)) (linhas (h2 ! df)))
          in case Mes (h3 ! df) of
               None \<Rightarrow> Inl KeyError
             | Some col_Mes \<Rightarrow> Inr (h3, f1, f2, f3, f4, f5, fig6 soma_num (zip (linhas (h3 ! df)) col_Mes))))"

section \<open>Presentation: the layout and the module (lines 73-125 and 233-245)\<close>

text \<open>The Dash components the script builds, with their contents and these properties: of
  a dropdown the id, the options (\<open>None\<close> when the script gives none), \<^verbatim>\<open>multi\<close> and the
  placeholder; of a graph the id. For an option, label and value are the same string. Widths,
  style classes and the pictogram in the heading are left out.\<close>

datatype component =
    H1 string
  | Dropdown string "string list option" bool string
  | Graph string
  | Col component
  | Row "component list"
  | Container "component list"
  | Div "component list"

fun dropdowns :: "component \<Rightarrow> component list" where
  "dropdowns (H1 t) = []"
| "dropdowns (Dropdown i os m p) = [Dropdown i os m p]"
| "dropdowns (Graph i) = []"
| "dropdowns (Col c) = dropdowns c"
| "dropdowns (Row cs) = concat (map dropdowns cs)"
| "dropdowns (Container cs) = concat (map dropdowns cs)"
| "dropdowns (Div cs) = concat (map dropdowns cs)"

fun graphs :: "component \<Rightarrow> string list" where
  "graphs (H1 t) = []"
| "graphs (Dropdown i os m p) = []"
| "graphs (Graph i) = [i]"
| "graphs (Col c) = graphs c"
| "graphs (Row cs) = concat (map graphs cs)"
| "graphs (Container cs) = concat (map graphs cs)"
| "graphs (Div cs) = concat (map graphs cs)"

text \<open>Lines 76-125.\<close>

definition layout_dashboard :: "'n fact_row list \<Rightarrow> component" where
  "layout_dashboard df_total =
     Container
       [H1 ''Dashboard de Vendas'',
        Row
          [Col (Dropdown ''filtro_tipo'' (Some (sort (filtros_tipo df_total))) False
                  ''Selecione o Tipo de Produto''),
           Col (Dropdown ''filtro_marca'' None False ''Selecione a Marca''),
           Col (Dropdown ''filtro_produto'' (Some (sort (filtros_produto df_total))) True
                  ''Filtrar por Produto''),
           Col (Dropdown ''filtro_loja'' (Some (sort (filtros_loja df_total))) True
                  ''Filtrar por Loja''),
           Col (Dropdown ''filtro_cliente'' (Some (sort (filtros_cliente df_total))) True
                  ''Filtrar por Cliente'')],
        Row [Col (Graph ''grafico_ano''), Col (Graph ''grafico_cliente'')],
        Row [Col (Graph ''grafico_produto''), Col (Graph ''grafico_loja'')],
        Row [Col (Graph ''grafico_pizza_tipo''), Col (Graph ''grafico_area_tempo'')]]"

text \<open>Lines 240-242.\<close>

definition layout_hello :: component where
  "layout_hello = Div [H1 ''Hello Dash'']"

text \<open>
  A \<^verbatim>\<open>Dash\<close> object: its layout and the callbacks registered on it (the ids of the outputs
  and of the inputs). The state of the module: the \<^verbatim>\<open>Dash\<close> objects created so far, the
  objects that the global names \<^verbatim>\<open>app\<close> and \<^verbatim>\<open>server\<close> refer to (\<^verbatim>\<open>server\<close> through the
  object whose Flask server it is), and the objects \<^verbatim>\<open>run_server\<close> has been called on.
\<close>

record dash =
  layout :: "component option"
  callbacks :: "(string list \<times> string list) list"

record modulo =
  objetos :: "dash list"
  app :: nat
  server :: nat
  run_server :: "nat list"

definition novo_Dash :: "modulo \<Rightarrow> modulo" where
  "novo_Dash m =
     m\<lparr>objetos := objetos m @ [\<lparr>layout = None, callbacks = []\<rparr>], app := length (objetos m),
       server := length (objetos m)\<rparr>"

definition atribuir_layout :: "component \<Rightarrow> modulo \<Rightarrow> modulo" where
  "atribuir_layout c m = m\<lparr>objetos := (objetos m)[app m := (objetos m ! app m)\<lparr>layout := Some c\<rparr>]\<rparr>"

definition callback :: "string list \<Rightarrow> string list \<Rightarrow> modulo \<Rightarrow> modulo" where
  "callback outs ins m =
     m\<lparr>objetos := (objetos m)[app m :=
         (objetos m ! app m)\<lparr>callbacks := callbacks (objetos m ! app m) @ [(outs, ins)]\<rparr>]\<rparr>"

definition se_main :: "bool \<Rightarrow> modulo \<Rightarrow> modulo" where
  "se_main main m = (if main then m\<lparr>run_server := run_server m @ [app m]\<rparr> else m)"

text \<open>
  The statements of the module from line 73 on, in order. \<open>main\<close> says whether
  \<^verbatim>\<open>__name__ == '__main__'\<close>: true when the file is run as a script, false when a WSGI
  server imports it and takes the name \<^verbatim>\<open>server\<close> (line 238).
\<close>

definition executar :: "bool \<Rightarrow> 'n fact_row list \<Rightarrow> modulo" where
  "executar main df_total =
     (se_main main \<circ> atribuir_layout layout_hello \<circ> novo_Dash \<circ>
      se_main main \<circ>
      callback [''grafico_ano'', ''grafico_cliente'', ''grafico_produto'', ''grafico_loja'',
                ''grafico_pizza_tipo'', ''grafico_area_tempo'']
               [''filtro_tipo'', ''filtro_marca'', ''filtro_produto'', ''filtro_loja'',
                ''filtro_cliente''] \<circ>
      callback [''filtro_marca''] [''filtro_tipo''] \<circ>
      atribuir_layout (layout_dashboard df_total) \<circ> novo_Dash)
       \<lparr>objetos = [], app = 0, server = 0, run_server = []\<rparr>"

text \<open>What is served: the objects \<^verbatim>\<open>run_server\<close> was called on when the file is run as a
  script, the object behind \<^verbatim>\<open>server\<close> when it is imported.\<close>

definition servidos :: "bool \<Rightarrow> 'n fact_row list \<Rightarrow> dash list" where
  "servidos main df_total =
     (let m = executar main df_total
      in map (\<lambda>a. objetos m ! a) (if main then run_server m else [server m]))"

section \<open>A small data set\<close>

text \<open>
  Three sales on which the definitions are evaluated below. The first two are the rows of
  the example scenario of the specification. The third has a date text that is no date, a
  customer without a last name, a product without a brand and the same store as the first;
  the store of the second sale is not in the store sheet. Quantities and prices are small
  whole numbers, on which the arithmetic of int64 and of float64 is that of the integers:
  the number type of the data set is \<open>int\<close>, its column sum \<open>sum_list\<close>.
\<close>

definition ex_vendas :: "(raw_cell, int) venda list" where
  "ex_vendas =
     [\<lparr>Data_da_Venda = Stamp \<lparr>year = 2021, month = 3, day = 1\<rparr>, Ordem_de_Compra = Some ''A'',
       ID_Produto = Some ''P1'', ID_Cliente = Some 1, Qtd_Vendida = Some 2, ID_Loja = Some 1\<rparr>,
      \<lparr>Data_da_Venda = Stamp \<lparr>year = 2021, month = 3, day = 15\<rparr>, Ordem_de_Compra = Some ''B'',
       ID_Produto = Some ''P2'', ID_Cliente = Some 2, Qtd_Vendida = Some 1, ID_Loja = Some 7\<rparr>,
      \<lparr>Data_da_Venda = Text ''sem data'', Ordem_de_Compra = Some ''C'',
       ID_Produto = Some ''P3'', ID_Cliente = Some 3, Qtd_Vendida = Some 1, ID_Loja = Some 1\<rparr>]"

definition ex_nomes :: "cliente_nomes list" where
  "ex_nomes =
     [\<lparr>nomes_ID_Cliente = Some 1, Primeiro_Nome = Some ''Alice'', Sobrenome = Some ''Lima''\<rparr>,
      \<lparr>nomes_ID_Cliente = Some 2, Primeiro_Nome = Some ''Bob'', Sobrenome = Some ''Reis''\<rparr>,
      \<lparr>nomes_ID_Cliente = Some 3, Primeiro_Nome = Some ''Caio'', Sobrenome = None\<rparr>]"

definition ex_clientes :: clientes_planilha where
  "ex_clientes = Nomes_Separados ex_nomes"

definition ex_produtos :: "int produto list" where
  "ex_produtos =
     [\<lparr>produto_ID_Produto = Some ''P1'', produto_Produto = Some ''Tenis'',
       produto_Tipo_do_Produto = Some ''Shoes'', produto_Marca = Some ''X'',
       produto_Preco_Unitario = Some 10\<rparr>,
      \<lparr>produto_ID_Produto = Some ''P2'', produto_Produto = Some ''Camisa'',
       produto_Tipo_do_Produto = Some ''Shirts'', produto_Marca = Some ''Y'',
       produto_Preco_Unitario = Some 20\<rparr>,
      \<lparr>produto_ID_Produto = Some ''P3'', produto_Produto = Some ''Meia'',
       produto_Tipo_do_Produto = Some ''Socks'', produto_Marca = None,
       produto_Preco_Unitario = Some 5\<rparr>]"

definition ex_lojas :: "loja list" where
  "ex_lojas = [\<lparr>loja_ID_Loja = Some 1, loja_Nome_da_Loja = Some ''Centro''\<rparr>]"

text \<open>A parser that takes no text for a date: the only text of the data set is none.\<close>

definition ex_parse :: "string \<Rightarrow> timestamp option" where
  "ex_parse s = None"

definition ex_datas :: "(timestamp option, int) venda list" where
  "ex_datas =
     [\<lparr>Data_da_Venda = Some \<lparr>year = 2021, month = 3, day = 1\<rparr>, Ordem_de_Compra = Some ''A'',
       ID_Produto = Some ''P1'', ID_Cliente = Some 1, Qtd_Vendida = Some 2, ID_Loja = Some 1\<rparr>,
      \<lparr>Data_da_Venda = Some \<lparr>year = 2021, month = 3, day = 15\<rparr>, Ordem_de_Compra = Some ''B'',
       ID_Produto = Some ''P2'', ID_Cliente = Some 2, Qtd_Vendida = Some 1, ID_Loja = Some 7\<rparr>,
      \<lparr>Data_da_Venda = None, Ordem_de_Compra = Some ''C'',
       ID_Produto = Some ''P3'', ID_Cliente = Some 3, Qtd_Vendida = Some 1, ID_Loja = Some 1\<rparr>]"

definition ex_A :: "int fact_row" where
  "ex_A =
     \<lparr>Data_da_Venda = Some \<lparr>year = 2021, month = 3, day = 1\<rparr>, Ordem_de_Compra = Some ''A'',
      ID_Produto = Some ''P1'', ID_Cliente = Some 1, Qtd_Vendida = Some 2, ID_Loja = Some 1,
      Nome_Completo = Some ''Alice Lima'', Produto = Some ''Tenis'',
      Tipo_do_Produto = Some ''Shoes'', Marca = Some ''X'', Preco_Unitario = Some 10,
      Nome_da_Loja = Some ''Centro'', Ano = Some 2021, Valor_da_Venda = Some 20\<rparr>"

definition ex_B :: "int fact_row" where
  "ex_B =
     \<lparr>Data_da_Venda = Some \<lparr>year = 2021, month = 3, day = 15\<rparr>, Ordem_de_Compra = Some ''B'',
      ID_Produto = Some ''P2'', ID_Cliente = Some 2, Qtd_Vendida = Some 1, ID_Loja = Some 7,
      Nome_Completo = Some ''Bob Reis'', Produto = Some ''Camisa'',
      Tipo_do_Produto = Some ''Shirts'', Marca = Some ''Y'', Preco_Unitario = Some 20,
      Nome_da_Loja = None, Ano = Some 2021, Valor_da_Venda = Some 20\<rparr>"

definition ex_C :: "int fact_row" where
  "ex_C =
     \<lparr>Data_da_Venda = None, Ordem_de_Compra = Some ''C'',
      ID_Produto = Some ''P3'', ID_Cliente = Some 3, Qtd_Vendida = Some 1, ID_Loja = Some 1,
      Nome_Completo = Some ''Caio nan'', Produto = Some ''Meia'',
      Tipo_do_Produto = Some ''Socks'', Marca = None, Preco_Unitario = Some 5,
      Nome_da_Loja = Some ''Centro'', Ano = None, Valor_da_Venda = Some 5\<rparr>"

text \<open>
  One sale in int64 columns (the type \<open>64 word\<close>: the 64 bits of the value, read as a
  signed number by \<open>sint\<close>) whose quantity and unit price are both 3037000500.
\<close>

definition ex_vendas_int64 :: "(timestamp option, 64 word) venda list" where
  "ex_vendas_int64 =
     [\<lparr>Data_da_Venda = Some \<lparr>year = 2021, month = 3, day = 1\<rparr>, Ordem_de_Compra = Some ''D'',
       ID_Produto = Some ''P9'', ID_Cliente = Some 9, Qtd_Vendida = Some 3037000500,
       ID_Loja = Some 9\<rparr>]"

definition ex_produtos_int64 :: "64 word produto list" where
  "ex_produtos_int64 =
     [\<lparr>produto_ID_Produto = Some ''P9'', produto_Produto = Some ''Lote'',
       produto_Tipo_do_Produto = Some ''Lots'', produto_Marca = Some ''Z'',
       produto_Preco_Unitario = Some 3037000500\<rparr>]"

text \<open>Nothing selected: the values of the five dropdowns when the page is loaded.\<close>

definition nada :: entradas where
  "nada = \<lparr>tipo = None, marca = None, produtos = None, lojas = None, clientes = None\<rparr>"

section \<open>The data set, evaluated\<close>

lemma ex_converter_datas: "converter_datas ex_parse ex_vendas = Inr ex_datas"
  by (simp add: converter_datas_def ex_vendas_def ex_datas_def ex_parse_def com_data_def)

lemma ex_unificar_nomes:
  "unificar_nomes ex_clientes =
     [\<lparr>cliente_ID_Cliente = Some 1, cliente_Nome_Completo = Some ''Alice Lima''\<rparr>,
      \<lparr>cliente_ID_Cliente = Some 2, cliente_Nome_Completo = Some ''Bob Reis''\<rparr>,
      \<lparr>cliente_ID_Cliente = Some 3, cliente_Nome_Completo = Some ''Caio nan''\<rparr>]"
  by (simp add: ex_clientes_def ex_nomes_def nome_completo_def)

lemma ex_df_total:
  "montar_df_total ex_datas (unificar_nomes ex_clientes) ex_produtos ex_lojas = [ex_A, ex_B, ex_C]"
  unfolding ex_unificar_nomes
  by (simp add: montar_df_total_def merge_left_def ex_datas_def ex_produtos_def ex_lojas_def
      linha_total_def coluna_def dt_year_def vezes_def ex_A_def ex_B_def ex_C_def)

section \<open>Joiner: left joins\<close>

lemma set_merge_left:
  "(l, ro) \<in> set (merge_left lk rk left right) \<longleftrightarrow>
     l \<in> set left \<and>
     (case ro of None \<Rightarrow> \<forall>r \<in> set right. rk r \<noteq> lk l
               | Some r \<Rightarrow> r \<in> set right \<and> rk r = lk l)"
  unfolding merge_left_def
  by (cases ro) (auto split: if_splits simp: filter_empty_conv Let_def)

lemma merge_left_keeps:
  assumes "l \<in> set left"
  shows "\<exists>ro. (l, ro) \<in> set (merge_left lk rk left right)"
proof (cases "\<exists>r \<in> set right. rk r = lk l")
  case True
  then obtain r where "r \<in> set right" "rk r = lk l" by blast
  with assms have "(l, Some r) \<in> set (merge_left lk rk left right)"
    by (simp add: set_merge_left)
  then show ?thesis ..
next
  case False
  with assms have "(l, None) \<in> set (merge_left lk rk left right)"
    by (simp add: set_merge_left)
  then show ?thesis ..
qed

lemma truncate_linha_total: "venda.truncate (linha_total (((v, c), p), l)) = v"
  by (simp add: linha_total_def venda.truncate_def)

text \<open>A sale paired with a customer row (or with none) by the first merge is carried
  through the other two.\<close>

lemma par_em_df_total:
  assumes "(v, c) \<in> set (merge_left ID_Cliente cliente_ID_Cliente vs cs)"
  shows "\<exists>p l. linha_total (((v, c), p), l) \<in> set (montar_df_total vs cs ps ls)"
proof -
  from assms obtain p where "((v, c), p) \<in> set (merge_left (\<lambda>vc. ID_Produto (fst vc)) produto_ID_Produto
       (merge_left ID_Cliente cliente_ID_Cliente vs cs) ps)"
    using merge_left_keeps by fastforce
  then obtain l where "(((v, c), p), l) \<in> set (merge_left (\<lambda>vcp. ID_Loja (fst (fst vcp))) loja_ID_Loja
       (merge_left (\<lambda>vc. ID_Produto (fst vc)) produto_ID_Produto
          (merge_left ID_Cliente cliente_ID_Cliente vs cs) ps) ls)"
    using merge_left_keeps by fastforce
  then have "linha_total (((v, c), p), l) \<in> set (montar_df_total vs cs ps ls)"
    unfolding montar_df_total_def set_map by (rule imageI)
  then show ?thesis by blast
qed

lemma venda_em_df_total:
  assumes "v \<in> set vs"
  shows "\<exists>f \<in> set (montar_df_total vs cs ps ls). venda.truncate f = v"
proof -
  from assms obtain c where "(v, c) \<in> set (merge_left ID_Cliente cliente_ID_Cliente vs cs)"
    using merge_left_keeps by fastforce
  then obtain p l where "linha_total (((v, c), p), l) \<in> set (montar_df_total vs cs ps ls)"
    using par_em_df_total by blast
  then show ?thesis
    using truncate_linha_total by blast
qed

lemma montar_df_totalE:
  assumes "f \<in> set (montar_df_total vs cs ps ls)"
  obtains v c p l where "f = linha_total (((v, c), p), l)" and "v \<in> set vs"
    and "case c of None \<Rightarrow> \<forall>r \<in> set cs. cliente_ID_Cliente r \<noteq> ID_Cliente v
                 | Some r \<Rightarrow> r \<in> set cs \<and> cliente_ID_Cliente r = ID_Cliente v"
    and "case p of None \<Rightarrow> \<forall>r \<in> set ps. produto_ID_Produto r \<noteq> ID_Produto v
                 | Some r \<Rightarrow> r \<in> set ps \<and> produto_ID_Produto r = ID_Produto v"
    and "case l of None \<Rightarrow> \<forall>r \<in> set ls. loja_ID_Loja r \<noteq> ID_Loja v
                 | Some r \<Rightarrow> r \<in> set ls \<and> loja_ID_Loja r = ID_Loja v"
proof -
  from assms obtain x where x: "f = linha_total x"
    "x \<in> set (merge_left (\<lambda>vcp. ID_Loja (fst (fst vcp))) loja_ID_Loja
       (merge_left (\<lambda>vc. ID_Produto (fst vc)) produto_ID_Produto
          (merge_left ID_Cliente cliente_ID_Cliente vs cs) ps) ls)"
    unfolding montar_df_total_def by auto
  obtain v c p l where xs: "x = (((v, c), p), l)"
    by (metis prod.exhaust)
  from x(2) have 3: "((v, c), p) \<in> set (merge_left (\<lambda>vc. ID_Produto (fst vc)) produto_ID_Produto
          (merge_left ID_Cliente cliente_ID_Cliente vs cs) ps)"
    and l: "case l of None \<Rightarrow> \<forall>r \<in> set ls. loja_ID_Loja r \<noteq> ID_Loja v
                 | Some r \<Rightarrow> r \<in> set ls \<and> loja_ID_Loja r = ID_Loja v"
    unfolding xs by (simp_all add: set_merge_left split: option.splits)
  from 3 have 2: "(v, c) \<in> set (merge_left ID_Cliente cliente_ID_Cliente vs cs)"
    and p: "case p of None \<Rightarrow> \<forall>r \<in> set ps. produto_ID_Produto r \<noteq> ID_Produto v
                 | Some r \<Rightarrow> r \<in> set ps \<and> produto_ID_Produto r = ID_Produto v"
    by (simp_all add: set_merge_left split: option.splits)
  from 2 have "v \<in> set vs"
    and c: "case c of None \<Rightarrow> \<forall>r \<in> set cs. cliente_ID_Cliente r \<noteq> ID_Cliente v
                 | Some r \<Rightarrow> r \<in> set cs \<and> cliente_ID_Cliente r = ID_Cliente v"
    by (simp_all add: set_merge_left split: option.splits)
  with x(1) xs p l that show thesis by blast
qed

text \<open>The columns of one row of the fact table.\<close>

lemma linha_total_colunas:
  "Ano (linha_total (((v, c), p), l)) = map_option year (Data_da_Venda v)"
  "Valor_da_Venda (linha_total (((v, c), p), l)) =
     (case (Qtd_Vendida v, coluna produto_Preco_Unitario p) of
        (Some q, Some u) \<Rightarrow> Some (q * u) | _ \<Rightarrow> None)"
  "Nome_Completo (linha_total (((v, c), p), l)) = coluna cliente_Nome_Completo c"
  "Produto (linha_total (((v, c), p), l)) = coluna produto_Produto p"
  "Tipo_do_Produto (linha_total (((v, c), p), l)) = coluna produto_Tipo_do_Produto p"
  "Marca (linha_total (((v, c), p), l)) = coluna produto_Marca p"
  "Preco_Unitario (linha_total (((v, c), p), l)) = coluna produto_Preco_Unitario p"
  "Nome_da_Loja (linha_total (((v, c), p), l)) = coluna loja_Nome_da_Loja l"
  "Data_da_Venda (linha_total (((v, c), p), l)) = Data_da_Venda v"
  "Qtd_Vendida (linha_total (((v, c), p), l)) = Qtd_Vendida v"
  "ID_Cliente (linha_total (((v, c), p), l)) = ID_Cliente v"
  "ID_Produto (linha_total (((v, c), p), l)) = ID_Produto v"
  "ID_Loja (linha_total (((v, c), p), l)) = ID_Loja v"
  by (simp_all add: linha_total_def dt_year_def vezes_def)

text \<open>
  C8 as the code has it. The fact table is built by three successive left joins, sales
  with customers on \<^verbatim>\<open>ID Cliente\<close>, then with products on \<^verbatim>\<open>ID Produto\<close>, then with
  stores on \<^verbatim>\<open>ID Loja\<close>: every sales row is the sales part of a row of the fact table,
  whether or not its keys match; every row of the fact table extends a sales row, the
  columns of a reference table are missing in it when no row of that table has its key, and
  they are the columns of a row with its key otherwise. The year is the year of the date,
  missing when the date is. The value of the sale is missing when quantity or unit price
  is, and otherwise their product as the number type of the two columns computes it, for
  every number type: the exact product where the type multiplies exactly, the rounded
  product in float64 columns, and in int64 columns the product modulo \<open>2 ^ 64\<close> (the last
  conjunct, on the 64 bits read as an unsigned number).
\<close>

theorem joiner_left_joins:
  fixes vs :: "(timestamp option, 'n::times) venda list" and cs ps ls
  defines "df_total \<equiv> montar_df_total vs cs ps ls"
  shows "(\<forall>v \<in> set vs. \<exists>f \<in> set df_total. venda.truncate f = v) \<and>
    (\<forall>f \<in> set df_total.
       venda.truncate f \<in> set vs \<and>
       (if \<exists>c \<in> set cs. cliente_ID_Cliente c = ID_Cliente f
        then \<exists>c \<in> set cs. cliente_ID_Cliente c = ID_Cliente f \<and>
               Nome_Completo f = cliente_Nome_Completo c
        else Nome_Completo f = None) \<and>
       (if \<exists>p \<in> set ps. produto_ID_Produto p = ID_Produto f
        then \<exists>p \<in> set ps. produto_ID_Produto p = ID_Produto f \<and>
               Produto f = produto_Produto p \<and> Tipo_do_Produto f = produto_Tipo_do_Produto p \<and>
               Marca f = produto_Marca p \<and> Preco_Unitario f = produto_Preco_Unitario p
        else Produto f = None \<and> Tipo_do_Produto f = None \<and> Marca f = None \<and>
               Preco_Unitario f = None) \<and>
       (if \<exists>l \<in> set ls. loja_ID_Loja l = ID_Loja f
        then \<exists>l \<in> set ls. loja_ID_Loja l = ID_Loja f \<and> Nome_da_Loja f = loja_Nome_da_Loja l
        else Nome_da_Loja f = None) \<and>
       Ano f = map_option year (Data_da_Venda f) \<and>
       (Data_da_Venda f = None \<longrightarrow> Ano f = None) \<and>
       Valor_da_Venda f =
         (case (Qtd_Vendida f, Preco_Unitario f) of (Some q, Some u) \<Rightarrow> Some (q * u) | _ \<Rightarrow> None) \<and>
       (Qtd_Vendida f = None \<or> Preco_Unitario f = None \<longrightarrow> Valor_da_Venda f = None)) \<and>
    (\<forall>q u :: 64 word.
       map_option uint (vezes (Some q) (Some u)) = Some ((uint q * uint u) mod 2 ^ 64))"
proof (intro conjI ballI allI)
  fix v assume "v \<in> set vs"
  then show "\<exists>f \<in> set df_total. venda.truncate f = v"
    unfolding df_total_def by (rule venda_em_df_total)
next
  fix f assume "f \<in> set df_total"
  then obtain v c p l where f: "f = linha_total (((v, c), p), l)" and v: "v \<in> set vs"
    and c: "case c of None \<Rightarrow> \<forall>r \<in> set cs. cliente_ID_Cliente r \<noteq> ID_Cliente v
                 | Some r \<Rightarrow> r \<in> set cs \<and> cliente_ID_Cliente r = ID_Cliente v"
    and p: "case p of None \<Rightarrow> \<forall>r \<in> set ps. produto_ID_Produto r \<noteq> ID_Produto v
                 | Some r \<Rightarrow> r \<in> set ps \<and> produto_ID_Produto r = ID_Produto v"
    and l: "case l of None \<Rightarrow> \<forall>r \<in> set ls. loja_ID_Loja r \<noteq> ID_Loja v
                 | Some r \<Rightarrow> r \<in> set ls \<and> loja_ID_Loja r = ID_Loja v"
    unfolding df_total_def by (rule montar_df_totalE)
  show "venda.truncate f \<in> set vs"
    using v by (simp add: f truncate_linha_total)
  show "if \<exists>c \<in> set cs. cliente_ID_Cliente c = ID_Cliente f
        then \<exists>c \<in> set cs. cliente_ID_Cliente c = ID_Cliente f \<and>
               Nome_Completo f = cliente_Nome_Completo c
        else Nome_Completo f = None"
    using c by (cases c) (auto simp: f linha_total_colunas coluna_def)
  show "if \<exists>p \<in> set ps. produto_ID_Produto p = ID_Produto f
        then \<exists>p \<in> set ps. produto_ID_Produto p = ID_Produto f \<and>
               Produto f = produto_Produto p \<and> Tipo_do_Produto f = produto_Tipo_do_Produto p \<and>
               Marca f = produto_Marca p \<and> Preco_Unitario f = produto_Preco_Unitario p
        else Produto f = None \<and> Tipo_do_Produto f = None \<and> Marca f = None \<and>
               Preco_Unitario f = None"
    using p by (cases p) (auto simp: f linha_total_colunas coluna_def)
  show "if \<exists>l \<in> set ls. loja_ID_Loja l = ID_Loja f
        then \<exists>l \<in> set ls. loja_ID_Loja l = ID_Loja f \<and> Nome_da_Loja f = loja_Nome_da_Loja l
        else Nome_da_Loja f = None"
    using l by (cases l) (auto simp: f linha_total_colunas coluna_def)
  show "Ano f = map_option year (Data_da_Venda f)"
    by (simp add: f linha_total_colunas)
  then show "Data_da_Venda f = None \<longrightarrow> Ano f = None"
    by simp
  show val: "Valor_da_Venda f =
         (case (Qtd_Vendida f, Preco_Unitario f) of (Some q, Some u) \<Rightarrow> Some (q * u) | _ \<Rightarrow> None)"
    by (simp add: f linha_total_colunas)
  show "Qtd_Vendida f = None \<or> Preco_Unitario f = None \<longrightarrow> Valor_da_Venda f = None"
    unfolding val by (auto split: option.splits)
next
  fix q u :: "64 word"
  show "map_option uint (vezes (Some q) (Some u)) = Some ((uint q * uint u) mod 2 ^ 64)"
    by (simp add: vezes_def uint_word_ariths)
qed

text \<open>On the data set: the three sales are the sales parts of the three rows, the second
  sale has no store and so no store name, the third no date and so no year.\<close>

theorem joiner_left_joins_witness:
  "map venda.truncate (montar_df_total ex_datas (unificar_nomes ex_clientes) ex_produtos ex_lojas)
     = ex_datas \<and>
   (\<exists>f \<in> set (montar_df_total ex_datas (unificar_nomes ex_clientes) ex_produtos ex_lojas).
      venda.truncate f = ex_datas ! 1 \<and> Nome_da_Loja f = None) \<and>
   Nome_da_Loja ex_B = None \<and> Ano ex_C = None \<and> Valor_da_Venda ex_A = Some 20"
  using joiner_left_joins [of ex_datas "unificar_nomes ex_clientes" ex_produtos ex_lojas]
  unfolding ex_df_total
  by (simp add: ex_A_def ex_B_def ex_C_def ex_datas_def venda.truncate_def)


text \<open>In int64 columns the product of line 59 wraps around: quantity and unit price
  3037000500 give the value - 9223372036709301616 and not their product
  9223372037000250000, which is beyond the largest int64, 9223372036854775807.\<close>

theorem joiner_line_total_counterexample:
  "map (map_option sint) (map Qtd_Vendida (montar_df_total ex_vendas_int64 [] ex_produtos_int64 []))
     = [Some 3037000500] \<and>
   map (map_option sint) (map Preco_Unitario (montar_df_total ex_vendas_int64 [] ex_produtos_int64 []))
     = [Some 3037000500] \<and>
   map (map_option sint) (map Valor_da_Venda (montar_df_total ex_vendas_int64 [] ex_produtos_int64 []))
     = [Some (- 9223372036709301616)] \<and>
   (3037000500 :: int) * 3037000500 = 9223372037000250000 \<and>
   (9223372037000250000 :: int) \<noteq> - 9223372036709301616"
  by (simp add: montar_df_total_def merge_left_def ex_vendas_int64_def ex_produtos_int64_def
      linha_total_def coluna_def dt_year_def vezes_def)

section \<open>Presentation: what is served\<close>

lemma executar_import:
  "executar False df_total =
     \<lparr>objetos =
        [\<lparr>layout = Some (layout_dashboard df_total),
          callbacks =
            [([''filtro_marca''], [''filtro_tipo'']),
             ([''grafico_ano'', ''grafico_cliente'', ''grafico_produto'', ''grafico_loja'',
               ''grafico_pizza_tipo'', ''grafico_area_tempo''],
              [''filtro_tipo'', ''filtro_marca'', ''filtro_produto'', ''filtro_loja'',
               ''filtro_cliente''])]\<rparr>,
         \<lparr>layout = Some layout_hello, callbacks = []\<rparr>],
      app = 1, server = 1, run_server = []\<rparr>"
  by (simp add: executar_def se_main_def atribuir_layout_def novo_Dash_def callback_def)

lemma executar_script:
  "executar True df_total = (executar False df_total)\<lparr>run_server := [0, 1]\<rparr>"
  by (simp add: executar_def se_main_def atribuir_layout_def novo_Dash_def callback_def)

text \<open>The layout of lines 76-125 has the five dropdowns (type and brand single-select, the
  brand without options of its own; product, store and customer multi-select) and the six
  graphs.\<close>

lemma layout_dashboard_widgets:
  "dropdowns (layout_dashboard df_total) =
     [Dropdown ''filtro_tipo'' (Some (sort (filtros_tipo df_total))) False
        ''Selecione o Tipo de Produto'',
      Dropdown ''filtro_marca'' None False ''Selecione a Marca'',
      Dropdown ''filtro_produto'' (Some (sort (filtros_produto df_total))) True
        ''Filtrar por Produto'',
      Dropdown ''filtro_loja'' (Some (sort (filtros_loja df_total))) True ''Filtrar por Loja'',
      Dropdown ''filtro_cliente'' (Some (sort (filtros_cliente df_total))) True
        ''Filtrar por Cliente'']"
  "graphs (layout_dashboard df_total) =
     [''grafico_ano'', ''grafico_cliente'', ''grafico_produto'', ''grafico_loja'',
      ''grafico_pizza_tipo'', ''grafico_area_tempo'']"
  by (simp_all add: layout_dashboard_def)

text \<open>
  C1. The claim is that the final layout of the \<^verbatim>\<open>app\<close> object that the process serves
  has the five selection widgets and the six charts. The module ends with lines 235-245,
  which bind \<^verbatim>\<open>app\<close> and \<^verbatim>\<open>server\<close> to a second \<^verbatim>\<open>Dash\<close> object whose layout is the
  one heading \<^verbatim>\<open>Hello Dash\<close>. When the module is imported, the object behind \<^verbatim>\<open>server\<close>
  is that one: it has no dropdown, no graph and no callback, whatever the fact table. The
  dashboard is the layout of the first object only, which no global name refers to any more.
\<close>

theorem served_layout_is_hello:
  "servidos False df_total = [\<lparr>layout = Some (Div [H1 ''Hello Dash'']), callbacks = []\<rparr>] \<and>
   dropdowns (Div [H1 ''Hello Dash'']) = [] \<and>
   graphs (Div [H1 ''Hello Dash'']) = [] \<and>
   layout (objetos (executar False df_total) ! app (executar False df_total))
     = Some (Div [H1 ''Hello Dash'']) \<and>
   objetos (executar False df_total) ! app (executar False df_total)
     \<noteq> objetos (executar False df_total) ! 0 \<and>
   layout (objetos (executar False df_total) ! 0) = Some (layout_dashboard df_total) \<and>
   length (dropdowns (layout_dashboard df_total)) = 5 \<and>
   length (graphs (layout_dashboard df_total)) = 6"
  by (simp add: servidos_def executar_import layout_hello_def layout_dashboard_widgets)

section \<open>Query engine\<close>

lemma foldl_filter:
  "foldl (\<lambda>df m. filter m df) df ms = filter (\<lambda>r. \<forall>m \<in> set ms. m r) df"
proof (induction ms arbitrary: df)
  case Nil
  show ?case by simp
next
  case (Cons m ms)
  show ?case
    unfolding foldl_Cons Cons.IH by (auto intro: filter_cong)
qed

lemma truthy_Some: "truthy v \<Longrightarrow> \<exists>x. v = Some x \<and> x \<noteq> []"
  by (cases v) (simp_all add: truthy_def)

lemma eq_mask_truthy: "truthy v \<Longrightarrow> eq_mask c v \<longleftrightarrow> c = v"
  by (cases c; cases v) (simp_all add: eq_mask_def truthy_def)

lemma isin_iff: "isin c vs \<longleftrightarrow> (\<exists>x xs. c = Some x \<and> vs = Some xs \<and> x \<in> set xs)"
  by (cases c; cases vs) (simp_all add: isin_def)

lemma filtrar_filter:
  "filtrar e df_total =
     filter (\<lambda>r.
        (truthy (tipo e) \<longrightarrow> Tipo_do_Produto r = tipo e) \<and>
        (truthy (marca e) \<longrightarrow> Marca r = marca e) \<and>
        (truthy (produtos e) \<longrightarrow> isin (Produto r) (produtos e)) \<and>
        (truthy (lojas e) \<longrightarrow> isin (Nome_da_Loja r) (lojas e)) \<and>
        (truthy (clientes e) \<longrightarrow> isin (Nome_Completo r) (clientes e))) df_total"
  unfolding filtrar_def foldl_filter mascaras_def
  by (rule filter_cong) (auto simp: eq_mask_truthy)

lemma filtrar_nada:
  assumes "\<not> truthy (tipo e)" "\<not> truthy (marca e)" "\<not> truthy (produtos e)"
    "\<not> truthy (lojas e)" "\<not> truthy (clientes e)"
  shows "filtrar e df_total = df_total"
  using assms by (simp add: filtrar_def mascaras_def)

text \<open>
  C2. For every selection, the rows that the query engine leaves are rows of the fact
  table, in their order, and they are exactly those that satisfy every active filter: the
  type and the brand columns equal the selected value, the product, store and customer
  columns hold a member of the selected list. A filter is active when its value is neither
  \<^verbatim>\<open>None\<close> nor empty; an inactive one restricts nothing.
\<close>

theorem filtrar_conjunctive:
  fixes e df_total
  defines "passa \<equiv> \<lambda>r.
        (truthy (tipo e) \<longrightarrow> Tipo_do_Produto r = tipo e) \<and>
        (truthy (marca e) \<longrightarrow> Marca r = marca e) \<and>
        (truthy (produtos e) \<longrightarrow>
           (\<exists>x xs. Produto r = Some x \<and> produtos e = Some xs \<and> x \<in> set xs)) \<and>
        (truthy (lojas e) \<longrightarrow>
           (\<exists>x xs. Nome_da_Loja r = Some x \<and> lojas e = Some xs \<and> x \<in> set xs)) \<and>
        (truthy (clientes e) \<longrightarrow>
           (\<exists>x xs. Nome_Completo r = Some x \<and> clientes e = Some xs \<and> x \<in> set xs))"
  shows "(\<forall>r \<in> set (filtrar e df_total). r \<in> set df_total \<and> passa r) \<and>
         filtrar e df_total = filter passa df_total"
proof -
  have "filtrar e df_total = filter passa df_total"
    unfolding filtrar_filter passa_def isin_iff ..
  then show ?thesis by simp
qed

theorem filtrar_conjunctive_witness:
  "filtrar \<lparr>tipo = Some ''Shoes'', marca = Some '''', produtos = None, lojas = Some [''Centro''],
            clientes = Some []\<rparr> [ex_A, ex_B, ex_C] = [ex_A] \<and>
   Tipo_do_Produto ex_A = Some ''Shoes'' \<and> Nome_da_Loja ex_A = Some ''Centro'' \<and>
   Nome_da_Loja ex_C = Some ''Centro'' \<and> Tipo_do_Produto ex_C = Some ''Socks''"
  using filtrar_conjunctive [of "\<lparr>tipo = Some ''Shoes'', marca = Some '''', produtos = None,
      lojas = Some [''Centro''], clientes = Some []\<rparr>" "[ex_A, ex_B, ex_C]"]
  by (simp add: truthy_def ex_A_def ex_B_def ex_C_def)

text \<open>
  C3. When every field of the selection is absent or empty (\<^verbatim>\<open>None\<close>, the empty string,
  the empty list), the query engine returns the rows of the fact table, all of them and in
  their order.
\<close>

theorem filtrar_identity:
  assumes "tipo e = None \<or> tipo e = Some ''''"
    and "marca e = None \<or> marca e = Some ''''"
    and "produtos e = None \<or> produtos e = Some []"
    and "lojas e = None \<or> lojas e = Some []"
    and "clientes e = None \<or> clientes e = Some []"
  shows "filtrar e df_total = df_total"
  using assms by (intro filtrar_nada) (auto simp: truthy_def)

theorem filtrar_identity_witness:
  "filtrar \<lparr>tipo = Some '''', marca = None, produtos = Some [], lojas = None, clientes = None\<rparr>
     [ex_A, ex_B, ex_C] = [ex_A, ex_B, ex_C]"
  using filtrar_identity [of "\<lparr>tipo = Some '''', marca = None, produtos = Some [], lojas = None,
      clientes = None\<rparr>" "[ex_A, ex_B, ex_C]"]
  by simp

section \<open>Aggregators\<close>

lemma set_dropna: "set (dropna col) = {x. Some x \<in> set col}"
  unfolding dropna_def by (auto split: option.splits)

lemma set_dropna_map: "set (dropna (map key df)) = {k. \<exists>r \<in> set df. key r = Some k}"
  unfolding set_dropna by force

lemma dropna_Cons: "dropna (c # col) = (case c of None \<Rightarrow> [] | Some x \<Rightarrow> [x]) @ dropna col"
  by (simp add: dropna_def)

lemma map_fst_groupby_sum:
  "map fst (groupby_sum soma_num key val df) = sort (remdups (dropna (map key df)))"
  by (simp add: groupby_sum_def comp_def)

lemma map_snd_groupby_sum:
  "map snd (groupby_sum soma_num key val df)
     = map (\<lambda>k. soma_num (dropna (map val (filter (\<lambda>r. key r = Some k) df))))
         (map fst (groupby_sum soma_num key val df))"
  by (simp add: groupby_sum_def comp_def soma_def)

lemma keys_groupby_sum:
  "fst ` set (groupby_sum soma_num key val df) = {k. \<exists>r \<in> set df. key r = Some k}"
proof -
  have "fst ` set (groupby_sum soma_num key val df) = set (map fst (groupby_sum soma_num key val df))"
    by simp
  also have "\<dots> = {k. \<exists>r \<in> set df. key r = Some k}"
    unfolding map_fst_groupby_sum by (simp add: set_dropna_map)
  finally show ?thesis .
qed

lemma distinct_groupby_sum: "distinct (map fst (groupby_sum soma_num key val df))"
  unfolding map_fst_groupby_sum by simp

lemma sorted_groupby_sum: "sorted (map fst (groupby_sum soma_num key val df))"
  unfolding map_fst_groupby_sum by simp

text \<open>Whatever is added up over the rows of each group, in a commutative monoid, adds up
  over the groups of any finite set of keys that covers the keys of the frame to what is
  added up over the rows that have a key.\<close>

lemma sum_grupos:
  fixes phi :: "'r \<Rightarrow> 'm::comm_monoid_add"
  assumes "finite K" and "{k. \<exists>r \<in> set df. key r = Some k} \<subseteq> K"
  shows "(\<Sum>k \<in> K. sum_list (map phi (filter (\<lambda>r. key r = Some k) df)))
           = sum_list (map phi (filter (\<lambda>r. key r \<noteq> None) df))"
  using assms(2)
proof (induction df)
  case Nil
  show ?case by simp
next
  case (Cons r df)
  then have IH: "(\<Sum>k \<in> K. sum_list (map phi (filter (\<lambda>r. key r = Some k) df)))
           = sum_list (map phi (filter (\<lambda>r. key r \<noteq> None) df))"
    by auto
  show ?case
  proof (cases "key r")
    case None
    then show ?thesis using IH by simp
  next
    case (Some k0)
    with Cons.prems have k0: "k0 \<in> K" by auto
    have "(\<Sum>k \<in> K. sum_list (map phi (filter (\<lambda>r. key r = Some k) (r # df))))
        = (\<Sum>k \<in> K. (if k = k0 then phi r else 0)
                      + sum_list (map phi (filter (\<lambda>r. key r = Some k) df)))"
      by (rule sum.cong) (auto simp: Some)
    also have "\<dots> = phi r + (\<Sum>k \<in> K. sum_list (map phi (filter (\<lambda>r. key r = Some k) df)))"
      using assms(1) k0 by (simp add: sum.distrib)
    finally show ?thesis
      using IH by (simp add: Some)
  qed
qed

text \<open>The values that the groups add up are, counted with their multiplicity, the values
  present in the rows that have a key: every such row is in exactly one group.\<close>

lemma mset_dropna_map:
  "mset (dropna (map val df))
     = sum_list (map (\<lambda>r. case val r of None \<Rightarrow> {#} | Some x \<Rightarrow> {#x#}) df)"
  by (induction df) (simp_all add: dropna_def split: option.splits)

lemma mset_grupos:
  "(\<Sum>k\<leftarrow>map fst (groupby_sum soma_num key val df).
        mset (dropna (map val (filter (\<lambda>r. key r = Some k) df))))
     = mset (dropna (map val (filter (\<lambda>r. key r \<noteq> None) df)))"
proof -
  let ?ks = "sort (remdups (dropna (map key df)))"
  let ?phi = "\<lambda>r. case val r of None \<Rightarrow> {#} | Some x \<Rightarrow> {#x#}"
  have "(\<Sum>k\<leftarrow>?ks. mset (dropna (map val (filter (\<lambda>r. key r = Some k) df))))
      = (\<Sum>k\<leftarrow>?ks. sum_list (map ?phi (filter (\<lambda>r. key r = Some k) df)))"
    by (simp only: mset_dropna_map)
  also have "\<dots> = (\<Sum>k \<in> set ?ks. sum_list (map ?phi (filter (\<lambda>r. key r = Some k) df)))"
    by (rule sum_list_distinct_conv_sum_set) simp
  also have "\<dots> = sum_list (map ?phi (filter (\<lambda>r. key r \<noteq> None) df))"
  proof (rule sum_grupos)
    show "finite (set ?ks)" by (rule finite_set)
    show "{k. \<exists>r \<in> set df. key r = Some k} \<subseteq> set ?ks" by (simp add: set_dropna_map)
  qed
  also have "\<dots> = mset (dropna (map val (filter (\<lambda>r. key r \<noteq> None) df)))"
    by (simp only: mset_dropna_map)
  finally show ?thesis
    unfolding map_fst_groupby_sum .
qed

text \<open>A sum that is a fold of an associative and commutative addition with a neutral
  element: the sum of a concatenation is the sum of the sums, and the order of the values
  does not matter.\<close>

lemma foldr_mais_append:
  assumes assoc: "\<And>a b c. mais (mais a b) c = mais a (mais b c)"
    and neutral: "\<And>a. mais zero a = a"
  shows "foldr mais xs b = mais (foldr mais xs zero) b"
  by (induction xs) (simp_all add: assoc neutral)

lemma foldr_mais_concat:
  assumes assoc: "\<And>a b c. mais (mais a b) c = mais a (mais b c)"
    and neutral: "\<And>a. mais zero a = a"
  shows "foldr mais (map (\<lambda>k. foldr mais (g k) zero) ks) zero = foldr mais (concat (map g ks)) zero"
proof (induction ks)
  case Nil
  show ?case by simp
next
  case (Cons k ks)
  have "foldr mais (concat (map g (k # ks))) zero
      = foldr mais (g k) (foldr mais (concat (map g ks)) zero)"
    by simp
  also have "\<dots> = mais (foldr mais (g k) zero) (foldr mais (concat (map g ks)) zero)"
    by (rule foldr_mais_append [OF assoc neutral])
  finally show ?case
    using Cons.IH by simp
qed

lemma foldr_mais_mset:
  assumes assoc: "\<And>a b c. mais (mais a b) c = mais a (mais b c)"
    and comm: "\<And>a b. mais a b = mais b a"
    and "mset xs = mset ys"
  shows "foldr mais xs zero = foldr mais ys zero"
proof -
  have lc: "mais x \<circ> mais y = mais y \<circ> mais x" for x y
  proof
    fix z
    have "mais x (mais y z) = mais (mais x y) z" by (simp add: assoc)
    also have "\<dots> = mais (mais y x) z" by (simp add: comm [of x y])
    also have "\<dots> = mais y (mais x z)" by (simp add: assoc)
    finally show "(mais x \<circ> mais y) z = (mais y \<circ> mais x) z" by simp
  qed
  have "fold mais (rev xs) = fold mais (rev ys)"
    by (rule fold_multiset_equiv) (simp_all add: lc assms(3))
  then show ?thesis
    by (simp add: foldr_conv_fold)
qed

lemma soma_grupos_exata:
  assumes fold: "\<And>xs. soma_num xs = foldr mais xs zero"
    and assoc: "\<And>a b c. mais (mais a b) c = mais a (mais b c)"
    and comm: "\<And>a b. mais a b = mais b a"
    and neutral: "\<And>a. mais zero a = a"
  shows "foldr mais (map snd (groupby_sum soma_num key val df)) zero
           = soma_num (dropna (map val (filter (\<lambda>r. key r \<noteq> None) df)))"
proof -
  let ?ks = "map fst (groupby_sum soma_num key val df)"
  let ?g = "\<lambda>k. dropna (map val (filter (\<lambda>r. key r = Some k) df))"
  have "map snd (groupby_sum soma_num key val df) = map (\<lambda>k. foldr mais (?g k) zero) ?ks"
    unfolding map_snd_groupby_sum [of soma_num key val df] by (simp add: fold)
  then have "foldr mais (map snd (groupby_sum soma_num key val df)) zero
      = foldr mais (concat (map ?g ?ks)) zero"
    by (simp only: foldr_mais_concat [OF assoc neutral])
  also have "\<dots> = foldr mais (dropna (map val (filter (\<lambda>r. key r \<noteq> None) df))) zero"
  proof (rule foldr_mais_mset [OF assoc comm])
    have "mset (concat (map ?g ?ks)) = (\<Sum>k\<leftarrow>?ks. mset (?g k))"
      by (simp add: mset_concat comp_def)
    then show "mset (concat (map ?g ?ks)) = mset (dropna (map val (filter (\<lambda>r. key r \<noteq> None) df)))"
      by (simp only: mset_grupos)
  qed
  finally show ?thesis
    by (simp add: fold)
qed

lemma length_nlargest: "length (nlargest n series) \<le> n"
  by (simp add: nlargest_def)

lemma set_nlargest: "set (nlargest n series) \<subseteq> set series"
  unfolding nlargest_def using set_take_subset [of n "rev (sort_key snd (rev series))"] by simp

lemma nlargest_all: "length series \<le> n \<Longrightarrow> set (nlargest n series) = set series"
  by (simp add: nlargest_def)

lemma sorted_nlargest: "sorted_wrt (\<lambda>a b. snd a \<ge> snd b) (nlargest n series)"
proof -
  have "sorted (map snd (sort_key snd (rev series)))"
    by (rule sorted_sort_key)
  then have "sorted_wrt (\<lambda>a b. snd a \<le> snd b) (sort_key snd (rev series))"
    by (simp add: sorted_map)
  then have "sorted_wrt (\<lambda>a b. snd a \<ge> snd b) (rev (sort_key snd (rev series)))"
    by (simp add: sorted_wrt_rev)
  then show ?thesis
    unfolding nlargest_def by (rule sorted_wrt_take)
qed

text \<open>
  C4 as the code has it. For every filtered subset, the sales-by-year series has one entry
  for each year present in the subset, in ascending order; the total of a year is the column
  sum of the values of \<^verbatim>\<open>Valor da Venda\<close> present in the rows of that year; and the values
  so added up in all the groups are, counted with their multiplicity, the values present in
  the rows of the subset that have a year: \<^verbatim>\<open>groupby\<close> leaves a row without year (a sale
  whose date is missing) out of every group. Whenever the column sum adds exactly, that is,
  as an associative and commutative addition with a neutral element (the integers, int64 with
  its wrap-around), the totals add up to the column sum over the rows of the subset that
  have a year. Nothing of the kind is stated of a column sum that rounds.
\<close>

theorem vendas_por_ano_conservation:
  fixes soma_num :: "'n list \<Rightarrow> 'n" and mais :: "'n \<Rightarrow> 'n \<Rightarrow> 'n" and zero :: 'n
    and e :: entradas and df_total :: "'n fact_row list"
  defines "df \<equiv> filtrar e df_total"
  shows
    "map fst (vendas_por_ano soma_num df) = sort (remdups (dropna (map Ano df))) \<and>
     map snd (vendas_por_ano soma_num df)
       = map (\<lambda>a. soma_num (dropna (map Valor_da_Venda (filter (\<lambda>r. Ano r = Some a) df))))
           (map fst (vendas_por_ano soma_num df)) \<and>
     (\<Sum>a\<leftarrow>map fst (vendas_por_ano soma_num df).
         mset (dropna (map Valor_da_Venda (filter (\<lambda>r. Ano r = Some a) df))))
       = mset (dropna (map Valor_da_Venda (filter (\<lambda>r. Ano r \<noteq> None) df))) \<and>
     ((\<forall>xs. soma_num xs = foldr mais xs zero) \<and>
      (\<forall>a b c. mais (mais a b) c = mais a (mais b c)) \<and>
      (\<forall>a b. mais a b = mais b a) \<and> (\<forall>a. mais zero a = a) \<longrightarrow>
        foldr mais (map snd (vendas_por_ano soma_num df)) zero
          = soma_num (dropna (map Valor_da_Venda (filter (\<lambda>r. Ano r \<noteq> None) df))))"
  unfolding vendas_por_ano_def
proof (intro conjI impI)
  show "map fst (groupby_sum soma_num Ano Valor_da_Venda df) = sort (remdups (dropna (map Ano df)))"
    by (rule map_fst_groupby_sum)
  show "map snd (groupby_sum soma_num Ano Valor_da_Venda df)
       = map (\<lambda>a. soma_num (dropna (map Valor_da_Venda (filter (\<lambda>r. Ano r = Some a) df))))
           (map fst (groupby_sum soma_num Ano Valor_da_Venda df))"
    by (rule map_snd_groupby_sum)
  show "(\<Sum>a\<leftarrow>map fst (groupby_sum soma_num Ano Valor_da_Venda df).
         mset (dropna (map Valor_da_Venda (filter (\<lambda>r. Ano r = Some a) df))))
       = mset (dropna (map Valor_da_Venda (filter (\<lambda>r. Ano r \<noteq> None) df)))"
    by (rule mset_grupos)
next
  assume "(\<forall>xs. soma_num xs = foldr mais xs zero) \<and>
      (\<forall>a b c. mais (mais a b) c = mais a (mais b c)) \<and>
      (\<forall>a b. mais a b = mais b a) \<and> (\<forall>a. mais zero a = a)"
  then show "foldr mais (map snd (groupby_sum soma_num Ano Valor_da_Venda df)) zero
          = soma_num (dropna (map Valor_da_Venda (filter (\<lambda>r. Ano r \<noteq> None) df)))"
    by (intro soma_grupos_exata) blast+
qed

text \<open>On the data set with nothing selected: the series is the year 2021 with the total
  40, and 40 is the sum over the two rows that have a year. In int64 columns, on the table of
  twice the sale with quantity and unit price 3037000500: the total of 2021 and the sum over
  the rows are both 290948384, the sum of the two values modulo \<open>2 ^ 64\<close>.\<close>

theorem vendas_por_ano_conservation_witness:
  "vendas_por_ano sum_list (filtrar nada [ex_A, ex_B, ex_C]) = [(2021, 40)] \<and>
   foldr (+) (map snd (vendas_por_ano sum_list (filtrar nada [ex_A, ex_B, ex_C]))) 0
     = sum_list (dropna (map Valor_da_Venda (filter (\<lambda>r. Ano r \<noteq> None)
         (filtrar nada [ex_A, ex_B, ex_C])))) \<and>
   foldr (+) (map snd (vendas_por_ano sum_list (filtrar nada
       (montar_df_total (ex_vendas_int64 @ ex_vendas_int64) [] ex_produtos_int64 [])))) 0
     = sum_list (dropna (map Valor_da_Venda (filter (\<lambda>r. Ano r \<noteq> None) (filtrar nada
       (montar_df_total (ex_vendas_int64 @ ex_vendas_int64) [] ex_produtos_int64 []))))) \<and>
   map snd (vendas_por_ano sum_list (filtrar nada
       (montar_df_total (ex_vendas_int64 @ ex_vendas_int64) [] ex_produtos_int64 [])))
     = [290948384 :: 64 word]"
proof -
  have laws: "(\<forall>xs. sum_list xs = foldr (+) xs (0 :: 'a :: comm_monoid_add)) \<and>
      (\<forall>a b c :: 'a. (a + b) + c = a + (b + c)) \<and>
      (\<forall>a b :: 'a. a + b = b + a) \<and> (\<forall>a :: 'a. 0 + a = a)"
    by (intro conjI allI) (rule sum_list.eq_foldr add.assoc add.commute add_0_left)+
  have "foldr (+) (map snd (vendas_por_ano sum_list (filtrar nada [ex_A, ex_B, ex_C]))) 0
     = sum_list (dropna (map Valor_da_Venda (filter (\<lambda>r. Ano r \<noteq> None)
         (filtrar nada [ex_A, ex_B, ex_C]))))"
    using vendas_por_ano_conservation [of sum_list nada "[ex_A, ex_B, ex_C]" "(+)" 0] laws
    by blast
  moreover have "foldr (+) (map snd (vendas_por_ano sum_list (filtrar nada
       (montar_df_total (ex_vendas_int64 @ ex_vendas_int64) [] ex_produtos_int64 [])))) 0
     = sum_list (dropna (map Valor_da_Venda (filter (\<lambda>r. Ano r \<noteq> None) (filtrar nada
       (montar_df_total (ex_vendas_int64 @ ex_vendas_int64) [] ex_produtos_int64 [])))))"
    using vendas_por_ano_conservation [of sum_list nada
        "montar_df_total (ex_vendas_int64 @ ex_vendas_int64) [] ex_produtos_int64 []" "(+)" 0] laws
    by blast
  moreover have "vendas_por_ano sum_list (filtrar nada [ex_A, ex_B, ex_C]) = [(2021, 40)]"
    by (simp add: filtrar_def mascaras_def nada_def truthy_def vendas_por_ano_def groupby_sum_def
        dropna_def soma_def ex_A_def ex_B_def ex_C_def)
  moreover have "map snd (vendas_por_ano sum_list (filtrar nada
       (montar_df_total (ex_vendas_int64 @ ex_vendas_int64) [] ex_produtos_int64 [])))
     = [290948384 :: 64 word]"
    by (simp add: filtrar_def mascaras_def nada_def truthy_def vendas_por_ano_def groupby_sum_def
        dropna_def soma_def montar_df_total_def merge_left_def ex_vendas_int64_def
        ex_produtos_int64_def linha_total_def coluna_def dt_year_def vezes_def)
  ultimately show ?thesis by simp
qed

text \<open>On the data set with nothing selected the sale without date is in the subset, with
  value 5, and in no year group: the totals add up to 40, the subset to 45.\<close>

theorem vendas_por_ano_conservation_counterexample:
  "sum_list (map snd (vendas_por_ano sum_list (filtrar nada [ex_A, ex_B, ex_C])))
     \<noteq> sum_list (dropna (map Valor_da_Venda (filtrar nada [ex_A, ex_B, ex_C])))"
  by (simp add: filtrar_def mascaras_def nada_def truthy_def vendas_por_ano_def groupby_sum_def
      dropna_def soma_def ex_A_def ex_B_def ex_C_def)

text \<open>
  C5. For every filtered subset, the top-10 customers and the top-10 products series have
  at most 10 entries, each a (key, sum) entry of the grouping by full name, respectively by
  product name, and the entries are in descending order of the sum.
\<close>

theorem top10_bounded_sorted:
  "length (top_clientes soma_num (filtrar e df_total)) \<le> 10 \<and>
   sorted_wrt (\<lambda>a b. snd a \<ge> snd b) (top_clientes soma_num (filtrar e df_total)) \<and>
   set (top_clientes soma_num (filtrar e df_total))
     \<subseteq> set (groupby_sum soma_num Nome_Completo Valor_da_Venda (filtrar e df_total)) \<and>
   length (top_produtos soma_num (filtrar e df_total)) \<le> 10 \<and>
   sorted_wrt (\<lambda>a b. snd a \<ge> snd b) (top_produtos soma_num (filtrar e df_total)) \<and>
   set (top_produtos soma_num (filtrar e df_total))
     \<subseteq> set (groupby_sum soma_num Produto Valor_da_Venda (filtrar e df_total))"
  unfolding top_clientes_def top_produtos_def
  by (intro conjI length_nlargest sorted_nlargest set_nlargest)

section \<open>The callback on the store\<close>

lemma to_datetime_celula:
  "to_datetime m parse (map (\<lambda>r. celula (f r)) rs) = Inr (map f rs)"
proof (induction rs)
  case Nil
  show ?case by simp
next
  case (Cons r rs)
  have "to_datetime_cell m parse (celula (f r)) = Inr (f r)"
    by (cases "f r") (simp_all add: celula_def)
  with Cons show ?case by simp
qed

text \<open>With \<^verbatim>\<open>errors='coerce'\<close> the conversion of a column never fails, and a text that is
  no date becomes a missing date.\<close>

lemma to_datetime_cell_Coerce:
  "to_datetime_cell Coerce parse c =
     Inr (case c of Stamp t \<Rightarrow> Some t | Missing \<Rightarrow> None | Text s \<Rightarrow> parse s)"
  by (cases c) (simp_all split: option.splits)

lemma to_datetime_Coerce:
  "to_datetime Coerce parse cs =
     Inr (map (\<lambda>c. case c of Stamp t \<Rightarrow> Some t | Missing \<Rightarrow> None | Text s \<Rightarrow> parse s) cs)"
  by (induction cs) (simp_all add: to_datetime_cell_Coerce)

lemma atribuir_Data_da_Venda_same:
  fixes h :: "'n store"
  assumes "a < length h"
  shows "atribuir_Data_da_Venda h a (map Data_da_Venda (linhas (h ! a))) = h"
proof -
  have "map (\<lambda>(r, d). r\<lparr>Data_da_Venda := d\<rparr>) (zip rs (map Data_da_Venda rs)) = rs"
    for rs :: "'n fact_row list"
    by (induction rs) simp_all
  then show ?thesis
    by (simp add: atribuir_Data_da_Venda_def)
qed

lemma foldl_indexar:
  assumes "a < length h"
  shows "\<exists>h' a'. foldl indexar (h, a) ms = (h', a') \<and> take (length h) h' = h \<and>
           a' < length h' \<and> (a' = a \<or> length h \<le> a') \<and>
           linhas (h' ! a') = foldl (\<lambda>df m. filter m df) (linhas (h ! a)) ms"
  using assms
proof (induction ms arbitrary: h a)
  case Nil
  then show ?case by simp
next
  case (Cons m ms)
  let ?h1 = "h @ [filtrar_frame m (h ! a)]"
  have step: "indexar (h, a) m = (?h1, length h)"
    by (simp add: indexar_def)
  have "length h < length ?h1" by simp
  from Cons.IH [OF this, of ] obtain h' a' where
    f: "foldl indexar (?h1, length h) ms = (h', a')" and
    t: "take (length ?h1) h' = ?h1" and
    a': "a' < length h'" "a' = length h \<or> length ?h1 \<le> a'" and
    l: "linhas (h' ! a') = foldl (\<lambda>df m. filter m df) (linhas (?h1 ! length h)) ms"
    by blast
  have "take (length h) (take (length ?h1) h') = h"
    unfolding t by simp
  then have "take (length h) h' = h"
    by (simp add: min_def)
  moreover have "length h \<le> a'"
    using a'(2) by auto
  moreover have "linhas (h' ! a') = foldl (\<lambda>df m. filter m df) (linhas (h ! a)) (m # ms)"
    unfolding l by (simp add: filtrar_frame_def)
  ultimately show ?case
    using f a'(1) by (simp add: step)
qed

text \<open>
  The callback never fails on a store that holds \<^verbatim>\<open>df_total\<close>. It returns the store it
  was given, extended by the frames it has allocated, and the six figures of the rows that
  the query engine leaves.
\<close>

lemma atualizar_graficos_Inr:
  fixes h :: "'n::linorder store" and a e parse soma_num
  assumes "a < length h"
  defines "df \<equiv> filtrar e (linhas (h ! a))"
  shows "\<exists>h'. take (length h) h' = h \<and>
     atualizar_graficos soma_num parse h a e =
       Inr (h', fig1 soma_num df, fig2 soma_num df, fig3 soma_num df, fig4 soma_num df, fig5 df,
            fig6 soma_num (map (\<lambda>r. (r, periodo_str (Data_da_Venda r))) df))"
proof -
  let ?h0 = "h @ [h ! a]"
  have "length h < length ?h0" by simp
  from foldl_indexar [OF this, of "mascaras e"] obtain h1 d where
    f: "foldl indexar (?h0, length h) (mascaras e) = (h1, d)" and
    t: "take (length ?h0) h1 = ?h0" and
    d: "d < length h1" "d = length h \<or> length ?h0 \<le> d" and
    l: "linhas (h1 ! d) = foldl (\<lambda>df m. filter m df) (linhas (?h0 ! length h)) (mascaras e)"
    by blast
  have rows: "linhas (h1 ! d) = df"
    unfolding l df_def filtrar_def by simp
  have "take (length h) (take (length ?h0) h1) = h"
    unfolding t by simp
  then have t1: "take (length h) h1 = h"
    by (simp add: min_def)
  have dh: "length h \<le> d"
    using d(2) by auto
  let ?h3 = "atribuir_Mes h1 d (map (\<lambda>r. periodo_str (Data_da_Venda r)) df)"
  have conv: "to_datetime Coerce parse (map (\<lambda>r. celula (Data_da_Venda r)) df)
      = Inr (map Data_da_Venda df)"
    by (rule to_datetime_celula)
  have same: "atribuir_Data_da_Venda h1 d (map Data_da_Venda df) = h1"
    using atribuir_Data_da_Venda_same [OF d(1)] unfolding rows .
  have m3: "Mes (?h3 ! d) = Some (map (\<lambda>r. periodo_str (Data_da_Venda r)) df)"
    and l3: "linhas (?h3 ! d) = df"
    using d(1) by (simp_all add: atribuir_Mes_def rows)
  have z: "zip df (map (\<lambda>r. periodo_str (Data_da_Venda r)) df)
      = map (\<lambda>r. (r, periodo_str (Data_da_Venda r))) df"
    by (induction df) simp_all
  have "atualizar_graficos soma_num parse h a e =
       Inr (?h3, fig1 soma_num df, fig2 soma_num df, fig3 soma_num df, fig4 soma_num df, fig5 df,
            fig6 soma_num (map (\<lambda>r. (r, periodo_str (Data_da_Venda r))) df))"
    unfolding atualizar_graficos_def copy_def f
    by (simp add: conv same rows m3 l3 z)
  moreover have "take (length h) ?h3 = h"
    using dh by (simp add: atribuir_Mes_def t1)
  ultimately show ?thesis by blast
qed

text \<open>
  C9. A pass of the chart callback does not change the base fact table. For every store
  that holds \<^verbatim>\<open>df_total\<close> and every selection, the callback returns; in the store it
  leaves, every frame that existed before, \<^verbatim>\<open>df_total\<close> among them, is as it was: the
  same rows with the same cells, and no column \<^verbatim>\<open>'Mes'\<close> added. The assignments of lines
  167 and 220 go to the frame that \<^verbatim>\<open>copy()\<close> or the last mask has allocated. A later call
  with any selection returns the figures it would have returned before.
\<close>

theorem atualizar_graficos_frame:
  fixes h :: "'n::linorder store"
  assumes "df_total < length h"
  shows "\<exists>h' figs. atualizar_graficos soma_num parse h df_total e = Inr (h', figs) \<and>
     take (length h) h' = h \<and> h' ! df_total = h ! df_total \<and>
     (\<forall>e2. map_sum id snd (atualizar_graficos soma_num parse h' df_total e2)
             = map_sum id snd (atualizar_graficos soma_num parse h df_total e2))"
proof -
  from atualizar_graficos_Inr [OF assms, of soma_num parse e] obtain h' figs where
    r: "atualizar_graficos soma_num parse h df_total e = Inr (h', figs)"
    and t: "take (length h) h' = h"
    by blast
  from t assms have lt: "df_total < length h'"
    by (metis length_take min_less_iff_conj)
  have same: "h' ! df_total = h ! df_total"
    using assms t by (metis nth_take)
  have "map_sum id snd (atualizar_graficos soma_num parse h' df_total e2)
      = map_sum id snd (atualizar_graficos soma_num parse h df_total e2)" for e2
    using atualizar_graficos_Inr [OF lt, of soma_num parse e2]
      atualizar_graficos_Inr [OF assms, of soma_num parse e2]
    unfolding same by auto
  with r t same show ?thesis by blast
qed

theorem atualizar_graficos_frame_witness:
  "\<exists>h' figs.
     atualizar_graficos sum_list ex_parse [\<lparr>linhas = [ex_A, ex_B, ex_C], Mes = None\<rparr>] 0 nada
       = Inr (h', figs) \<and>
     h' ! 0 = \<lparr>linhas = [ex_A, ex_B, ex_C], Mes = None\<rparr>"
  using atualizar_graficos_frame [of 0 "[\<lparr>linhas = [ex_A, ex_B, ex_C], Mes = None\<rparr>]" sum_list
      ex_parse nada]
  by auto

section \<open>Brand cascade\<close>

lemma set_unique: "set (unique xs) = set xs"
  by (simp add: unique_def)

lemma distinct_unique: "distinct (unique xs)"
  by (simp add: unique_def)

lemma set_atualizar_marcas:
  assumes "truthy sel"
  shows "set (atualizar_marcas df_total sel)
           = {b. \<exists>r \<in> set df_total. Tipo_do_Produto r = sel \<and> Marca r = Some b}"
proof -
  have "set (atualizar_marcas df_total sel)
      = {b. \<exists>r \<in> set (filter (\<lambda>r. eq_mask (Tipo_do_Produto r) sel) df_total). Marca r = Some b}"
    using assms by (simp add: atualizar_marcas_def set_unique set_dropna_map)
  also have "\<dots> = {b. \<exists>r \<in> set df_total. Tipo_do_Produto r = sel \<and> Marca r = Some b}"
    using assms by (auto simp: eq_mask_truthy)
  finally show ?thesis .
qed

text \<open>
  C6 as the code has it. The brand candidate list is empty when no product type is
  selected (\<^verbatim>\<open>None\<close> or the empty string). When a type is selected it is the sorted list,
  without repetition, of exactly the brands that are present in the rows of the fact table
  of that type; so it is a part of the brands of the filter index, and it is empty when
  no row of that type has a brand.
\<close>

theorem atualizar_marcas_cascade:
  "(if truthy sel
    then sorted (atualizar_marcas df_total sel) \<and> distinct (atualizar_marcas df_total sel) \<and>
         set (atualizar_marcas df_total sel)
           = {b. \<exists>r \<in> set df_total. Tipo_do_Produto r = sel \<and> Marca r = Some b} \<and>
         set (atualizar_marcas df_total sel) \<subseteq> set (filtros_marca df_total)
    else atualizar_marcas df_total sel = [])"
proof (cases "truthy sel")
  case True
  have "sorted (atualizar_marcas df_total sel)" "distinct (atualizar_marcas df_total sel)"
    using True by (simp_all add: atualizar_marcas_def distinct_unique)
  moreover have "set (atualizar_marcas df_total sel) \<subseteq> set (filtros_marca df_total)"
    unfolding set_atualizar_marcas [OF True] filtros_marca_def set_unique set_dropna_map by blast
  ultimately show ?thesis
    using True set_atualizar_marcas [OF True] by simp
next
  case False
  then show ?thesis by (simp add: atualizar_marcas_def)
qed

theorem atualizar_marcas_cascade_witness:
  "atualizar_marcas [ex_A, ex_B, ex_C] (Some ''Shoes'') = [''X''] \<and>
   atualizar_marcas [ex_A, ex_B, ex_C] None = [] \<and>
   atualizar_marcas [ex_A, ex_B, ex_C] (Some '''') = [] \<and>
   filtros_marca [ex_A, ex_B, ex_C] = [''X'', ''Y'']"
  using atualizar_marcas_cascade [of "Some ''Shoes''" "[ex_A, ex_B, ex_C]"]
    atualizar_marcas_cascade [of None "[ex_A, ex_B, ex_C]"]
  by (simp add: atualizar_marcas_def filtros_marca_def truthy_def eq_mask_def dropna_def
      unique_def ex_A_def ex_B_def ex_C_def)

text \<open>On the data set the type \<^verbatim>\<open>Socks\<close> is offered by the type dropdown, and its only row
  has no brand: with that type selected the brand list is empty.\<close>

theorem atualizar_marcas_nonempty_counterexample:
  "''Socks'' \<in> set (filtros_tipo [ex_A, ex_B, ex_C]) \<and> truthy (Some ''Socks'') \<and>
   atualizar_marcas [ex_A, ex_B, ex_C] (Some ''Socks'') = []"
  by (simp add: atualizar_marcas_def filtros_tipo_def truthy_def eq_mask_def dropna_def
      unique_def ex_A_def ex_B_def ex_C_def)

section \<open>Missing dates\<close>

text \<open>The label of a missing date is a text, so the key of its row in the grouping by
  month is present: the row is in the group \<^verbatim>\<open>NaT\<close>.\<close>

lemma vendas_mes_NaT:
  assumes "r \<in> set df" and "Data_da_Venda r = None"
  shows "''NaT'' \<in> fst ` set (vendas_mes soma_num (map (\<lambda>r. (r, periodo_str (Data_da_Venda r))) df))"
  unfolding vendas_mes_def keys_groupby_sum
  using assms by (force simp: periodo_str_def)

lemma vendas_por_ano_sem_data:
  "vendas_por_ano soma_num df = vendas_por_ano soma_num (filter (\<lambda>r. Ano r \<noteq> None) df)"
proof -
  have k: "dropna (map Ano (filter (\<lambda>r. Ano r \<noteq> None) df)) = dropna (map Ano df)"
    by (induction df) (auto simp: dropna_def)
  have f: "filter (\<lambda>r. Ano r = Some k) (filter (\<lambda>r. Ano r \<noteq> None) df)
      = filter (\<lambda>r. Ano r = Some k) df" for k
    by (induction df) auto
  show ?thesis
    by (simp only: vendas_por_ano_def groupby_sum_def k f)
qed

text \<open>
  C7. The claim is that a sale date that cannot be parsed becomes a missing date without an
  error, and that rows with a missing date are left out of every aggregation keyed by the
  date, the monthly trend in particular. On the data set the first part holds and the
  sales-by-year series leaves the sale without date out; but line 220 turns the month of
  every row into a text before line 221 groups by it, the missing one into \<^verbatim>\<open>NaT\<close>, and
  the monthly series has the entry \<^verbatim>\<open>NaT\<close> with the value 5 of that sale.
\<close>

theorem vendas_mes_keeps_missing_date:
  "converter_datas ex_parse ex_vendas = Inr ex_datas \<and>
   map Data_da_Venda ex_datas
     = [Some \<lparr>year = 2021, month = 3, day = 1\<rparr>, Some \<lparr>year = 2021, month = 3, day = 15\<rparr>, None] \<and>
   montar_df_total ex_datas (unificar_nomes ex_clientes) ex_produtos ex_lojas
     = [ex_A, ex_B, ex_C] \<and>
   map_sum id (\<lambda>(h', f1, f2, f3, f4, f5, f6). (dados f1, dados f6))
     (atualizar_graficos sum_list ex_parse [\<lparr>linhas = [ex_A, ex_B, ex_C], Mes = None\<rparr>] 0 nada)
     = Inr ([(2021, 40)], [(''2021-03'', 40), (''NaT'', 5)])"
proof -
  have "\<exists>h'. atualizar_graficos sum_list ex_parse [\<lparr>linhas = [ex_A, ex_B, ex_C], Mes = None\<rparr>] 0 nada
      = Inr (h', fig1 sum_list [ex_A, ex_B, ex_C], fig2 sum_list [ex_A, ex_B, ex_C],
             fig3 sum_list [ex_A, ex_B, ex_C], fig4 sum_list [ex_A, ex_B, ex_C],
             fig5 [ex_A, ex_B, ex_C],
             fig6 sum_list (map (\<lambda>r. (r, periodo_str (Data_da_Venda r))) [ex_A, ex_B, ex_C]))"
    using atualizar_graficos_Inr [of 0 "[\<lparr>linhas = [ex_A, ex_B, ex_C], Mes = None\<rparr>]" sum_list
        ex_parse nada]
    by (simp add: filtrar_def mascaras_def nada_def truthy_def) blast
  moreover have "dados (fig1 sum_list [ex_A, ex_B, ex_C]) = [(2021, 40)]"
    by (simp add: fig1_def vendas_por_ano_def groupby_sum_def dropna_def soma_def
        ex_A_def ex_B_def ex_C_def)
  moreover have "dados (fig6 sum_list (map (\<lambda>r. (r, periodo_str (Data_da_Venda r))) [ex_A, ex_B, ex_C]))
      = [(''2021-03'', 40), (''NaT'', 5)]"
    by (simp add: fig6_def vendas_mes_def groupby_sum_def dropna_def soma_def periodo_str_def
        digito_def ex_A_def ex_B_def ex_C_def)
  moreover have "map Data_da_Venda ex_datas
     = [Some \<lparr>year = 2021, month = 3, day = 1\<rparr>, Some \<lparr>year = 2021, month = 3, day = 15\<rparr>, None]"
    by (simp add: ex_datas_def)
  ultimately show ?thesis
    using ex_converter_datas ex_df_total by auto
qed

section \<open>Names with a missing part\<close>

lemma filtrar_nada_id: "filtrar nada df = df"
  by (simp add: filtrar_def mascaras_def nada_def truthy_def)

text \<open>
  C10. When the customer sheet has the two name columns and a customer has no first name
  or no last name, the full name of the customer is present: it is the first name, a blank
  and the last name with the text \<^verbatim>\<open>nan\<close> in the place of the missing one. For every sale
  of that customer, the fact table has a row with that full name; the name passes
  \<^verbatim>\<open>dropna()\<close> into the filter index and is an option of the customer dropdown, and it is
  a key of the grouping by full name, hence an entry of the top-10 customers series when
  there are at most ten names.
\<close>

theorem nome_completo_nan:
  fixes c cs v and vs :: "(timestamp option, 'n::{times,linorder}) venda list" and ps ls soma_num
  defines "n \<equiv> astype_str (Primeiro_Nome c) @ '' '' @ astype_str (Sobrenome c)"
  defines "df_total \<equiv> montar_df_total vs (unificar_nomes (Nomes_Separados cs)) ps ls"
  assumes c: "c \<in> set cs" and nan: "Primeiro_Nome c = None \<or> Sobrenome c = None"
    and v: "v \<in> set vs" and id: "ID_Cliente v = nomes_ID_Cliente c"
  shows "cliente_Nome_Completo (nome_completo c) = Some n \<and>
    (\<exists>pre suf. n = pre @ ''nan'' @ suf) \<and>
    (\<exists>f \<in> set df_total. venda.truncate f = v \<and> Nome_Completo f = Some n) \<and>
    n \<in> set (filtros_cliente df_total) \<and>
    Dropdown ''filtro_cliente'' (Some (sort (filtros_cliente df_total))) True ''Filtrar por Cliente''
      \<in> set (dropdowns (layout_dashboard df_total)) \<and>
    n \<in> set (sort (filtros_cliente df_total)) \<and>
    n \<in> fst ` set (groupby_sum soma_num Nome_Completo Valor_da_Venda df_total) \<and>
    (length (groupby_sum soma_num Nome_Completo Valor_da_Venda df_total) \<le> 10 \<longrightarrow>
       n \<in> fst ` set (top_clientes soma_num (filtrar nada df_total)))"
proof -
  have name: "cliente_Nome_Completo (nome_completo c) = Some n"
    by (simp add: nome_completo_def n_def)
  have sub: "\<exists>pre suf. n = pre @ ''nan'' @ suf"
  proof (cases "Primeiro_Nome c")
    case None
    then have "n = [] @ ''nan'' @ ('' '' @ astype_str (Sobrenome c))"
      by (simp add: n_def)
    then show ?thesis by blast
  next
    case (Some a)
    with nan have "n = (a @ '' '') @ ''nan'' @ []"
      by (simp add: n_def)
    then show ?thesis by blast
  qed
  have "nome_completo c \<in> set (unificar_nomes (Nomes_Separados cs))"
    using c by simp
  moreover have "cliente_ID_Cliente (nome_completo c) = ID_Cliente v"
    by (simp add: nome_completo_def id)
  ultimately have "(v, Some (nome_completo c))
      \<in> set (merge_left ID_Cliente cliente_ID_Cliente vs (unificar_nomes (Nomes_Separados cs)))"
    using v by (simp add: set_merge_left)
  then obtain p l where f: "linha_total (((v, Some (nome_completo c)), p), l) \<in> set df_total"
    unfolding df_total_def using par_em_df_total by blast
  let ?f = "linha_total (((v, Some (nome_completo c)), p), l)"
  have fn: "Nome_Completo ?f = Some n"
    by (simp add: linha_total_colunas coluna_def name)
  have row: "\<exists>f \<in> set df_total. venda.truncate f = v \<and> Nome_Completo f = Some n"
    using f fn truncate_linha_total by blast
  have idx: "n \<in> set (filtros_cliente df_total)"
    unfolding filtros_cliente_def set_unique set_dropna_map using f fn by blast
  have key: "n \<in> fst ` set (groupby_sum soma_num Nome_Completo Valor_da_Venda df_total)"
    unfolding keys_groupby_sum using f fn by blast
  have top: "n \<in> fst ` set (top_clientes soma_num (filtrar nada df_total))"
    if "length (groupby_sum soma_num Nome_Completo Valor_da_Venda df_total) \<le> 10"
    using key nlargest_all [OF that] by (simp add: top_clientes_def filtrar_nada_id)
  have dd: "Dropdown ''filtro_cliente'' (Some (sort (filtros_cliente df_total))) True
      ''Filtrar por Cliente'' \<in> set (dropdowns (layout_dashboard df_total))"
    by (simp add: layout_dashboard_widgets)
  from name sub row idx dd key top show ?thesis
    by simp
qed

theorem nome_completo_nan_witness:
  "cliente_Nome_Completo (nome_completo (ex_nomes ! 2)) = Some ''Caio nan'' \<and>
   filtros_cliente [ex_A, ex_B, ex_C] = [''Alice Lima'', ''Bob Reis'', ''Caio nan''] \<and>
   ''Caio nan'' \<in> fst ` set (top_clientes sum_list (filtrar nada [ex_A, ex_B, ex_C]))"
proof -
  have "ex_nomes ! 2 \<in> set ex_nomes"
    and "Primeiro_Nome (ex_nomes ! 2) = None \<or> Sobrenome (ex_nomes ! 2) = None"
    and "ex_datas ! 2 \<in> set ex_datas"
    and "ID_Cliente (ex_datas ! 2) = nomes_ID_Cliente (ex_nomes ! 2)"
    by (simp_all add: ex_nomes_def ex_datas_def)
  from nome_completo_nan [OF this, of ex_produtos ex_lojas sum_list]
  have "cliente_Nome_Completo (nome_completo (ex_nomes ! 2))
       = Some (astype_str (Primeiro_Nome (ex_nomes ! 2)) @ '' '' @ astype_str (Sobrenome (ex_nomes ! 2)))"
    and "length (groupby_sum sum_list Nome_Completo Valor_da_Venda [ex_A, ex_B, ex_C]) \<le> 10 \<longrightarrow>
      astype_str (Primeiro_Nome (ex_nomes ! 2)) @ '' '' @ astype_str (Sobrenome (ex_nomes ! 2))
        \<in> fst ` set (top_clientes sum_list (filtrar nada [ex_A, ex_B, ex_C]))"
    unfolding ex_clientes_def [symmetric] ex_df_total by blast+
  moreover have "astype_str (Primeiro_Nome (ex_nomes ! 2)) @ '' '' @ astype_str (Sobrenome (ex_nomes ! 2))
      = ''Caio nan''"
    by (simp add: ex_nomes_def)
  moreover have "length (groupby_sum sum_list Nome_Completo Valor_da_Venda [ex_A, ex_B, ex_C]) \<le> 10"
    by (simp add: groupby_sum_def dropna_def ex_A_def ex_B_def ex_C_def)
  moreover have "filtros_cliente [ex_A, ex_B, ex_C] = [''Alice Lima'', ''Bob Reis'', ''Caio nan'']"
    by (simp add: filtros_cliente_def unique_def dropna_def ex_A_def ex_B_def ex_C_def)
  ultimately show ?thesis by simp
qed

end
